theory Spec2Isabelle
  imports Complex_Main
begin

section \<open>The JSON tree\<close>

text \<open>
  The parser walks the tree that the JSON library builds: every value carries a type tag
  and a payload. A string's payload is its characters, a number's payload is the text of
  the number as it stood in the document (it is converted only when it is read as a
  coordinate), an object is the linked list of its elements (name and value, in document
  order, duplicates possible), an array the linked list of its values.
\<close>

datatype json =
    JString string
  | JNumber string
  | JObject "(string \<times> json) list"
  | JArray "json list"
  | JTrue
  | JFalse
  | JNull

type_synonym json_object = "(string \<times> json) list"

datatype json_type =
    json_type_string
  | json_type_number
  | json_type_object
  | json_type_array
  | json_type_true
  | json_type_false
  | json_type_null

text \<open>The tag \<open>val->type\<close> of a value.\<close>

fun jtype :: "json \<Rightarrow> json_type" where
  "jtype (JString s) = json_type_string"
| "jtype (JNumber s) = json_type_number"
| "jtype (JObject elems) = json_type_object"
| "jtype (JArray elems) = json_type_array"
| "jtype JTrue = json_type_true"
| "jtype JFalse = json_type_false"
| "jtype JNull = json_type_null"

section \<open>Errors\<close>

text \<open>
  Every \<open>throw\<close> of the parser is a constructor. \<open>NumberOutOfRange\<close> is the
  exception that the standard conversion \<open>std::stod\<close> raises inside \<open>get_number\<close>
  when the text of a number has no \<open>double\<close> value.
\<close>

datatype error =
    CannotOpen
  | FailedToParseJSON
  | NoStringTypeField
  | MissingTopLevelProperties
  | MissingStringCrs
  | MissingDatumArray
  | MissingNumericHeading
  | UnknownCRS string
  | InvalidPointCoordinates
  | NumberOutOfRange

section \<open>The accessors of the anonymous namespace\<close>

text \<open>
  \<open>find_element\<close> compares names with \<open>strcmp\<close>, which reads a name up to its first
  NUL character. A pointer that may be null is an \<open>option\<close>.
\<close>

definition c_str :: "string \<Rightarrow> string" where
  "c_str s = takeWhile (\<lambda>c. c \<noteq> CHR 0x00) s"

fun find_element :: "json_object option \<Rightarrow> string \<Rightarrow> json option" where
  "find_element None key = None"
| "find_element (Some []) key = None"
| "find_element (Some ((name, v) # rest)) key =
     (if c_str name = c_str key then Some v else find_element (Some rest) key)"

fun get_string :: "json option \<Rightarrow> string" where
  "get_string (Some (JString s)) = s"
| "get_string _ = []"

text \<open>
  \<open>stod\<close> stands for \<open>std::stod\<close> on the text of a number: \<open>None\<close> when it throws.
  The type \<open>'n\<close> is the type of \<open>double\<close> values; only its zero is used.
\<close>

fun get_number :: "(string \<Rightarrow> 'n option) \<Rightarrow> json option \<Rightarrow> error + ('n::zero)" where
  "get_number stod (Some (JNumber s)) =
     (case stod s of None \<Rightarrow> Inl NumberOutOfRange | Some r \<Rightarrow> Inr r)"
| "get_number stod _ = Inr 0"

fun get_object :: "json option \<Rightarrow> json_object option" where
  "get_object (Some (JObject elems)) = Some elems"
| "get_object _ = None"

fun get_array :: "json option \<Rightarrow> json list option" where
  "get_array (Some (JArray elems)) = Some elems"
| "get_array _ = None"

text \<open>
  The two loops of \<open>serialize_value\<close> share their shape: \<open>first\<close> tells whether a
  comma goes before the next piece, \<open>result\<close> is the text so far.
\<close>

fun append_pieces :: "bool \<Rightarrow> string \<Rightarrow> string list \<Rightarrow> string" where
  "append_pieces first result [] = result"
| "append_pieces first result (piece # rest) =
     append_pieces False ((if \<not> first then result @ '','' else result) @ piece) rest"

fun serialize_value :: "json option \<Rightarrow> string" where
  \<open>serialize_value None = ''null''\<close>
| \<open>serialize_value (Some (JString s)) = ''"'' @ s @ ''"''\<close>
| \<open>serialize_value (Some (JNumber s)) = s\<close>
| \<open>serialize_value (Some JTrue) = ''true''\<close>
| \<open>serialize_value (Some JFalse) = ''false''\<close>
| \<open>serialize_value (Some JNull) = ''null''\<close>
| \<open>serialize_value (Some (JObject elems)) =
     append_pieces True ''{''
       (map (\<lambda>(name, v). ''"'' @ name @ ''":'' @ serialize_value (Some v)) elems) @ ''}''\<close>
| \<open>serialize_value (Some (JArray elems)) =
     append_pieces True ''[''
       (map (\<lambda>v. serialize_value (Some v)) elems) @ '']''\<close>

section \<open>Reading the document: \<open>op::ReadFeatureCollection\<close>\<close>

text \<open>
  \<open>file\<close> is the content of the file, \<open>None\<close> when it cannot be opened.
  \<open>json_parse\<close> is the library's parser: \<open>None\<close> is its null result. The result of
  the function is the owning pointer, which is null when the wrapped text does not parse.
\<close>

definition op_ReadFeatureCollection ::
    "(string \<Rightarrow> json option) \<Rightarrow> string option \<Rightarrow> error + json option" where
  \<open>op_ReadFeatureCollection json_parse file =
     (case file of
        None \<Rightarrow> Inl CannotOpen
      | Some content \<Rightarrow>
          (case json_parse content of
             None \<Rightarrow> Inl FailedToParseJSON
           | Some root_v \<Rightarrow>
               (case get_object (Some root_v) of
                  None \<Rightarrow> Inl NoStringTypeField
                | Some obj \<Rightarrow>
                    (case find_element (Some obj) ''type'' of
                       None \<Rightarrow> Inl NoStringTypeField
                     | Some type_v \<Rightarrow>
                         if jtype type_v \<noteq> json_type_string then Inl NoStringTypeField
                         else if get_string (Some type_v) = ''FeatureCollection''
                           then Inr (Some root_v)
                         else if get_string (Some type_v) = ''Feature''
                           then Inr (json_parse
                             (''{"type":"FeatureCollection","features":[''
                                @ serialize_value (Some root_v) @ '']}''))
                         else Inr (json_parse
                             (''{"type":"FeatureCollection","features":[{"type":"Feature","geometry":''
                                @ serialize_value (Some root_v) @ '',"properties":{}}]}''))))))\<close>

section \<open>Properties\<close>

fun parseProperties_loop :: "(string \<rightharpoonup> string) \<Rightarrow> json_object \<Rightarrow> (string \<rightharpoonup> string)" where
  "parseProperties_loop m [] = m"
| "parseProperties_loop m ((key, v) # rest) =
     parseProperties_loop
       (if jtype v = json_type_string then m(key \<mapsto> get_string (Some v))
        else m(key \<mapsto> serialize_value (Some v)))
       rest"

definition parseProperties :: "json_object option \<Rightarrow> (string \<rightharpoonup> string)" where
  "parseProperties props =
     (case props of None \<Rightarrow> Map.empty | Some elems \<Rightarrow> parseProperties_loop Map.empty elems)"

section \<open>Coordinates\<close>

text \<open>
  The value types of the geometry library, fields in the order of their initialisers:
  a point and a local offset are \<open>x, y, z\<close>, a geodetic coordinate and a datum are
  \<open>lat, lon, alt\<close>, an orientation is \<open>roll, pitch, yaw\<close>. \<open>toENU\<close> stands for the
  library's transform \<open>WGS::toENU\<close>, which the parser calls as a black box.
\<close>

datatype 'n Point = Point 'n 'n 'n

datatype 'n WGS = WGS 'n 'n 'n

datatype 'n ENU = ENU 'n 'n 'n

datatype 'n Datum = Datum 'n 'n 'n

datatype 'n Euler = Euler 'n 'n 'n

datatype CRS = CRS_WGS | CRS_ENU

definition parsePoint ::
    "(string \<Rightarrow> 'n option) \<Rightarrow> ('n WGS \<Rightarrow> 'n Datum \<Rightarrow> 'n ENU) \<Rightarrow>
     json list option \<Rightarrow> 'n Datum \<Rightarrow> CRS \<Rightarrow> error + ('n::zero) Point" where
  "parsePoint stod toENU coords dat crs =
     (case coords of
        None \<Rightarrow> Inl InvalidPointCoordinates
      | Some elems \<Rightarrow>
          if length elems < 2 then Inl InvalidPointCoordinates
          else
            (case get_number stod (Some (elems ! 0)) of
               Inl e \<Rightarrow> Inl e
             | Inr x \<Rightarrow>
                 (case get_number stod (Some (elems ! 1)) of
                    Inl e \<Rightarrow> Inl e
                  | Inr y \<Rightarrow>
                      (case (case drop 2 elems of
                               [] \<Rightarrow> Inr 0
                             | z_elem # _ \<Rightarrow> get_number stod (Some z_elem)) of
                         Inl e \<Rightarrow> Inl e
                       | Inr z \<Rightarrow>
                           if crs = CRS_ENU then Inr (Point x y z)
                           else
                             (case toENU (WGS y x z) dat of
                                ENU ex ey ez \<Rightarrow> Inr (Point ex ey ez))))))"

fun parseCRS :: "string \<Rightarrow> error + CRS" where
  "parseCRS s =
     (if s = ''EPSG:4326'' \<or> s = ''WGS84'' \<or> s = ''WGS'' then Inr CRS_WGS
      else if s = ''ENU'' \<or> s = ''ECEF'' then Inr CRS_ENU
      else Inl (UnknownCRS s))"

section \<open>Geometries\<close>

text \<open>
  A line has two end points, a polygon keeps one ring of points. A geometry is the variant
  over a point, a line, a path (a vector of points) and a polygon.
\<close>

datatype 'n Line = Line "'n Point" "'n Point"

datatype 'n Polygon = Polygon "'n Point list"

datatype 'n Geometry =
    GeomPoint "'n Point"
  | GeomLine "'n Line"
  | GeomPath "'n Point list"
  | GeomPolygon "'n Polygon"

text \<open>
  The loop of \<open>parseLineString\<close> and of \<open>parsePolygon\<close> over the entries of an array:
  an entry that is an array is parsed as a point and pushed to \<open>pts\<close>, any other entry is
  passed over; the first exception ends the loop.
\<close>

fun points_loop ::
    "(string \<Rightarrow> 'n option) \<Rightarrow> ('n WGS \<Rightarrow> 'n Datum \<Rightarrow> 'n ENU) \<Rightarrow>
     json list \<Rightarrow> 'n Datum \<Rightarrow> CRS \<Rightarrow> 'n Point list \<Rightarrow> error + ('n::zero) Point list" where
  "points_loop stod toENU [] dat crs pts = Inr pts"
| "points_loop stod toENU (elem # rest) dat crs pts =
     (case get_array (Some elem) of
        None \<Rightarrow> points_loop stod toENU rest dat crs pts
      | Some pt_arr \<Rightarrow>
          (case parsePoint stod toENU (Some pt_arr) dat crs of
             Inl e \<Rightarrow> Inl e
           | Inr p \<Rightarrow> points_loop stod toENU rest dat crs (pts @ [p])))"

definition parseLineString ::
    "(string \<Rightarrow> 'n option) \<Rightarrow> ('n WGS \<Rightarrow> 'n Datum \<Rightarrow> 'n ENU) \<Rightarrow>
     json list option \<Rightarrow> 'n Datum \<Rightarrow> CRS \<Rightarrow> error + ('n::zero) Geometry" where
  "parseLineString stod toENU coords dat crs =
     (case coords of
        None \<Rightarrow> Inr (GeomPath [])
      | Some elems \<Rightarrow>
          (case points_loop stod toENU elems dat crs [] of
             Inl e \<Rightarrow> Inl e
           | Inr pts \<Rightarrow>
               if length pts = 2 then Inr (GeomLine (Line (pts ! 0) (pts ! 1)))
               else Inr (GeomPath pts)))"

definition parsePolygon ::
    "(string \<Rightarrow> 'n option) \<Rightarrow> ('n WGS \<Rightarrow> 'n Datum \<Rightarrow> 'n ENU) \<Rightarrow>
     json list option \<Rightarrow> 'n Datum \<Rightarrow> CRS \<Rightarrow> error + ('n::zero) Polygon" where
  "parsePolygon stod toENU coords dat crs =
     (case coords of
        None \<Rightarrow> Inr (Polygon [])
      | Some [] \<Rightarrow> Inr (Polygon [])
      | Some (ring # holes) \<Rightarrow>
          (case get_array (Some ring) of
             None \<Rightarrow> Inr (Polygon [])
           | Some ring_arr \<Rightarrow>
               (case points_loop stod toENU ring_arr dat crs [] of
                  Inl e \<Rightarrow> Inl e
                | Inr pts \<Rightarrow> Inr (Polygon pts))))"

text \<open>
  The loops of the three Multi kinds push one geometry per entry that is an array to
  \<open>out\<close>.
\<close>

fun multipoint_loop ::
    "(string \<Rightarrow> 'n option) \<Rightarrow> ('n WGS \<Rightarrow> 'n Datum \<Rightarrow> 'n ENU) \<Rightarrow>
     json list \<Rightarrow> 'n Datum \<Rightarrow> CRS \<Rightarrow> 'n Geometry list \<Rightarrow> error + ('n::zero) Geometry list" where
  "multipoint_loop stod toENU [] dat crs out = Inr out"
| "multipoint_loop stod toENU (elem # rest) dat crs out =
     (case get_array (Some elem) of
        None \<Rightarrow> multipoint_loop stod toENU rest dat crs out
      | Some pt_arr \<Rightarrow>
          (case parsePoint stod toENU (Some pt_arr) dat crs of
             Inl e \<Rightarrow> Inl e
           | Inr p \<Rightarrow> multipoint_loop stod toENU rest dat crs (out @ [GeomPoint p])))"

fun multilinestring_loop ::
    "(string \<Rightarrow> 'n option) \<Rightarrow> ('n WGS \<Rightarrow> 'n Datum \<Rightarrow> 'n ENU) \<Rightarrow>
     json list \<Rightarrow> 'n Datum \<Rightarrow> CRS \<Rightarrow> 'n Geometry list \<Rightarrow> error + ('n::zero) Geometry list" where
  "multilinestring_loop stod toENU [] dat crs out = Inr out"
| "multilinestring_loop stod toENU (elem # rest) dat crs out =
     (case get_array (Some elem) of
        None \<Rightarrow> multilinestring_loop stod toENU rest dat crs out
      | Some line_arr \<Rightarrow>
          (case parseLineString stod toENU (Some line_arr) dat crs of
             Inl e \<Rightarrow> Inl e
           | Inr g \<Rightarrow> multilinestring_loop stod toENU rest dat crs (out @ [g])))"

fun multipolygon_loop ::
    "(string \<Rightarrow> 'n option) \<Rightarrow> ('n WGS \<Rightarrow> 'n Datum \<Rightarrow> 'n ENU) \<Rightarrow>
     json list \<Rightarrow> 'n Datum \<Rightarrow> CRS \<Rightarrow> 'n Geometry list \<Rightarrow> error + ('n::zero) Geometry list" where
  "multipolygon_loop stod toENU [] dat crs out = Inr out"
| "multipolygon_loop stod toENU (elem # rest) dat crs out =
     (case get_array (Some elem) of
        None \<Rightarrow> multipolygon_loop stod toENU rest dat crs out
      | Some poly_arr \<Rightarrow>
          (case parsePolygon stod toENU (Some poly_arr) dat crs of
             Inl e \<Rightarrow> Inl e
           | Inr pg \<Rightarrow> multipolygon_loop stod toENU rest dat crs (out @ [GeomPolygon pg])))"

text \<open>
  \<open>coords_elem ? get_array(coords_elem->value) : nullptr\<close>, and the same for
  \<open>geometries\<close>, \<open>datum\<close> and \<open>features\<close>.
\<close>

definition array_field :: "json_object option \<Rightarrow> string \<Rightarrow> json list option" where
  "array_field obj key =
     (case find_element obj key of None \<Rightarrow> None | Some v \<Rightarrow> get_array (Some v))"

text \<open>
  \<open>parseGeometry\<close> with the loop of its GeometryCollection branch, which calls it again on
  every member that is an object and appends what it returns to \<open>out\<close>.
\<close>

function parseGeometry ::
    "(string \<Rightarrow> 'n option) \<Rightarrow> ('n WGS \<Rightarrow> 'n Datum \<Rightarrow> 'n ENU) \<Rightarrow>
     json_object option \<Rightarrow> 'n Datum \<Rightarrow> CRS \<Rightarrow> error + ('n::zero) Geometry list"
  and geometries_loop ::
    "(string \<Rightarrow> 'n option) \<Rightarrow> ('n WGS \<Rightarrow> 'n Datum \<Rightarrow> 'n ENU) \<Rightarrow>
     json list \<Rightarrow> 'n Datum \<Rightarrow> CRS \<Rightarrow> 'n Geometry list \<Rightarrow> error + ('n::zero) Geometry list" where
  "parseGeometry stod toENU None dat crs = Inr []"
| "parseGeometry stod toENU (Some geom) dat crs =
     (case find_element (Some geom) ''type'' of
        None \<Rightarrow> Inr []
      | Some type_v \<Rightarrow>
          if get_string (Some type_v) = ''Point'' then
            (case array_field (Some geom) ''coordinates'' of
               None \<Rightarrow> Inr []
             | Some coords \<Rightarrow>
                 (case parsePoint stod toENU (Some coords) dat crs of
                    Inl e \<Rightarrow> Inl e
                  | Inr p \<Rightarrow> Inr [GeomPoint p]))
          else if get_string (Some type_v) = ''LineString'' then
            (case array_field (Some geom) ''coordinates'' of
               None \<Rightarrow> Inr []
             | Some coords \<Rightarrow>
                 (case parseLineString stod toENU (Some coords) dat crs of
                    Inl e \<Rightarrow> Inl e
                  | Inr g \<Rightarrow> Inr [g]))
          else if get_string (Some type_v) = ''Polygon'' then
            (case array_field (Some geom) ''coordinates'' of
               None \<Rightarrow> Inr []
             | Some coords \<Rightarrow>
                 (case parsePolygon stod toENU (Some coords) dat crs of
                    Inl e \<Rightarrow> Inl e
                  | Inr pg \<Rightarrow> Inr [GeomPolygon pg]))
          else if get_string (Some type_v) = ''MultiPoint'' then
            (case array_field (Some geom) ''coordinates'' of
               None \<Rightarrow> Inr []
             | Some coords \<Rightarrow> multipoint_loop stod toENU coords dat crs [])
          else if get_string (Some type_v) = ''MultiLineString'' then
            (case array_field (Some geom) ''coordinates'' of
               None \<Rightarrow> Inr []
             | Some coords \<Rightarrow> multilinestring_loop stod toENU coords dat crs [])
          else if get_string (Some type_v) = ''MultiPolygon'' then
            (case array_field (Some geom) ''coordinates'' of
               None \<Rightarrow> Inr []
             | Some coords \<Rightarrow> multipolygon_loop stod toENU coords dat crs [])
          else if get_string (Some type_v) = ''GeometryCollection'' then
            (case array_field (Some geom) ''geometries'' of
               None \<Rightarrow> Inr []
             | Some geoms_arr \<Rightarrow> geometries_loop stod toENU geoms_arr dat crs [])
          else Inr [])"
| "geometries_loop stod toENU [] dat crs out = Inr out"
| "geometries_loop stod toENU (elem # rest) dat crs out =
     (case get_object (Some elem) of
        None \<Rightarrow> geometries_loop stod toENU rest dat crs out
      | Some sub_obj \<Rightarrow>
          (case parseGeometry stod toENU (Some sub_obj) dat crs of
             Inl e \<Rightarrow> Inl e
           | Inr subs \<Rightarrow> geometries_loop stod toENU rest dat crs (out @ subs)))"
  by pat_completeness auto
termination
proof (relation "measure (\<lambda>a. case a of
          Inl (stod, toENU, geom, dat, crs) \<Rightarrow>
            (case geom of None \<Rightarrow> 0 | Some obj \<Rightarrow> size (JObject obj))
        | Inr (stod, toENU, elems, dat, crs, out) \<Rightarrow> size (JArray elems))",
       goal_cases)
  case 1
  show ?case by simp
next
  case (2 stod toENU geom dat crs type_v geoms_arr)
  have found: "find_element (Some obj) key = Some v \<Longrightarrow> size v < size (JObject obj)"
    for obj key v
    by (induction obj) (auto split: if_splits)
  from 2 obtain v where v: "find_element (Some geom) ''geometries'' = Some v"
      "get_array (Some v) = Some geoms_arr"
    by (auto simp: array_field_def split: option.splits)
  from v(2) have "v = JArray geoms_arr" by (cases v) auto
  with found [OF v(1)] show ?case by simp
next
  case (3 stod toENU elem rest dat crs out)
  show ?case by simp
next
  case (4 stod toENU elem rest dat crs out sub_obj)
  then have "elem = JObject sub_obj" by (cases elem) auto
  then show ?case by simp
next
  case (5 stod toENU elem rest dat crs out sub_obj subs)
  show ?case by simp
qed

section \<open>The feature collection\<close>

record 'n Feature =
  geometry :: "'n Geometry"
  properties :: "string \<rightharpoonup> string"

record 'n FeatureCollection =
  datum :: "'n Datum"
  heading :: "'n Euler"
  features :: "'n Feature list"
  global_properties :: "string \<rightharpoonup> string"

text \<open>
  The loop over the top-level properties: every key but \<open>crs\<close>, \<open>datum\<close> and
  \<open>heading\<close> goes to the global properties.
\<close>

fun global_properties_loop ::
    "(string \<rightharpoonup> string) \<Rightarrow> json_object \<Rightarrow> (string \<rightharpoonup> string)" where
  "global_properties_loop m [] = m"
| "global_properties_loop m ((key, v) # rest) =
     global_properties_loop
       (if key \<noteq> ''crs'' \<and> key \<noteq> ''datum'' \<and> key \<noteq> ''heading'' then
          (if jtype v = json_type_string then m(key \<mapsto> get_string (Some v))
           else m(key \<mapsto> serialize_value (Some v)))
        else m)
       rest"

text \<open>The property map of one feature: empty unless \<open>properties\<close> is an object.\<close>

definition feature_props_map :: "json_object \<Rightarrow> (string \<rightharpoonup> string)" where
  "feature_props_map feat_obj =
     (case find_element (Some feat_obj) ''properties'' of
        None \<Rightarrow> Map.empty
      | Some props_v \<Rightarrow>
          if jtype props_v = json_type_object then parseProperties (get_object (Some props_v))
          else Map.empty)"

text \<open>
  The loop over the \<open>features\<close> array; \<open>fs\<close> is \<open>fc.features\<close> so far. The three
  \<open>continue\<close> statements are the three branches that go on with \<open>fs\<close> unchanged.
\<close>

fun features_loop ::
    "(string \<Rightarrow> 'n option) \<Rightarrow> ('n WGS \<Rightarrow> 'n Datum \<Rightarrow> 'n ENU) \<Rightarrow>
     json list \<Rightarrow> 'n Datum \<Rightarrow> CRS \<Rightarrow> 'n Feature list \<Rightarrow> error + ('n::zero) Feature list" where
  "features_loop stod toENU [] dat crs fs = Inr fs"
| "features_loop stod toENU (feat_elem # rest) dat crs fs =
     (case get_object (Some feat_elem) of
        None \<Rightarrow> features_loop stod toENU rest dat crs fs
      | Some feat_obj \<Rightarrow>
          (case find_element (Some feat_obj) ''geometry'' of
             None \<Rightarrow> features_loop stod toENU rest dat crs fs
           | Some geom_v \<Rightarrow>
               if jtype geom_v = json_type_null then features_loop stod toENU rest dat crs fs
               else
                 (case parseGeometry stod toENU (get_object (Some geom_v)) dat crs of
                    Inl e \<Rightarrow> Inl e
                  | Inr geoms \<Rightarrow>
                      features_loop stod toENU rest dat crs
                        (fs @ map (\<lambda>g. \<lparr>geometry = g, properties = feature_props_map feat_obj\<rparr>)
                               geoms))))"

definition ReadFeatureCollection ::
    "(string \<Rightarrow> json option) \<Rightarrow> (string \<Rightarrow> 'n option) \<Rightarrow> ('n WGS \<Rightarrow> 'n Datum \<Rightarrow> 'n ENU) \<Rightarrow>
     string option \<Rightarrow> error + ('n::zero) FeatureCollection" where
  "ReadFeatureCollection json_parse stod toENU file =
     (case op_ReadFeatureCollection json_parse file of
        Inl e \<Rightarrow> Inl e
      | Inr fc_json \<Rightarrow>
     (case find_element (get_object fc_json) ''properties'' of
        None \<Rightarrow> Inl MissingTopLevelProperties
      | Some props_v \<Rightarrow>
     if jtype props_v \<noteq> json_type_object then Inl MissingTopLevelProperties
     else
     (case find_element (get_object (Some props_v)) ''crs'' of
        None \<Rightarrow> Inl MissingStringCrs
      | Some crs_v \<Rightarrow>
     if jtype crs_v \<noteq> json_type_string then Inl MissingStringCrs
     else
     (case array_field (get_object (Some props_v)) ''datum'' of
        None \<Rightarrow> Inl MissingDatumArray
      | Some datum_arr \<Rightarrow>
     if length datum_arr < 3 then Inl MissingDatumArray
     else
     (case find_element (get_object (Some props_v)) ''heading'' of
        None \<Rightarrow> Inl MissingNumericHeading
      | Some heading_v \<Rightarrow>
     if jtype heading_v \<noteq> json_type_number then Inl MissingNumericHeading
     else
     (case parseCRS (get_string (Some crs_v)) of
        Inl e \<Rightarrow> Inl e
      | Inr crsVal \<Rightarrow>
     (case get_number stod (Some (datum_arr ! 0)) of
        Inl e \<Rightarrow> Inl e
      | Inr d0 \<Rightarrow>
     (case get_number stod (Some (datum_arr ! 1)) of
        Inl e \<Rightarrow> Inl e
      | Inr d1 \<Rightarrow>
     (case get_number stod (Some (datum_arr ! 2)) of
        Inl e \<Rightarrow> Inl e
      | Inr d2 \<Rightarrow>
     (case get_number stod (Some heading_v) of
        Inl e \<Rightarrow> Inl e
      | Inr yaw \<Rightarrow>
     (case features_loop stod toENU
             (case array_field (get_object fc_json) ''features'' of
                None \<Rightarrow> []
              | Some features_arr \<Rightarrow> features_arr)
             (Datum d0 d1 d2) crsVal [] of
        Inl e \<Rightarrow> Inl e
      | Inr fs \<Rightarrow>
          Inr \<lparr>datum = Datum d0 d1 d2,
               heading = Euler 0 0 yaw,
               features = fs,
               global_properties =
                 global_properties_loop Map.empty
                   (case get_object (Some props_v) of None \<Rightarrow> [] | Some elems \<Rightarrow> elems)\<rparr>)))))))))))"

section \<open>Instances for the worked examples\<close>

text \<open>
  The worked examples run the parser on concrete documents. There a \<open>double\<close> is a real
  number, and the conversion is a table of the number texts the examples use: the value
  \<open>std::stod\<close> returns on each of them. It gives no value on any other text; the
  examples use that only for \<open>1e999\<close>, which \<open>std::stod\<close> rejects as out of range.
  The examples that read coordinates are in the local planar frame, so the geodetic
  transform is a stand-in: the offset from the datum, axis by axis.
\<close>

definition sample_stod :: "string \<Rightarrow> real option" where
  "sample_stod = map_of
     [(''0'', 0), (''1'', 1), (''2'', 2), (''3'', 3),
      (''10.0'', 10), (''20.0'', 20), (''5.0'', 5)]"

fun sample_toENU :: "real WGS \<Rightarrow> real Datum \<Rightarrow> real ENU" where
  "sample_toENU (WGS la lo al) (Datum dla dlo dal) = ENU (lo - dlo) (la - dla) (al - dal)"

section \<open>Notions for stating the properties\<close>

text \<open>
  The characters a serialisation can take from the value itself: the payloads of its
  strings and numbers and the names of its fields, in document order.
\<close>

fun payload_text :: "json \<Rightarrow> string" where
  "payload_text (JString s) = s"
| "payload_text (JNumber s) = s"
| "payload_text (JObject elems) = concat (map (\<lambda>(name, v). name @ payload_text v) elems)"
| "payload_text (JArray elems) = concat (map payload_text elems)"
| "payload_text JTrue = []"
| "payload_text JFalse = []"
| "payload_text JNull = []"


text \<open>
  The characters \<open>serialize_value\<close> writes of its own: brackets, braces, colon, comma,
  the double quote and the letters of \<open>true\<close>, \<open>false\<close> and \<open>null\<close>. No white space
  is among them.
\<close>

definition structural_chars :: "char set" where
  \<open>structural_chars = set ''{}[]:,"truefalsn''\<close>

text \<open>
  The compact JSON text of a value, as the specification words the canonical form: no
  white space, fields and entries in their order with single commas between them, a number
  as its text, and a string or a field name between double quotes with the characters
  that JSON does not allow bare inside a string written as escapes: the double quote, the
  backslash and the control characters below U+0020. A value is free of escapes when no
  string and no field name inside it holds such a character.
\<close>

definition needs_escape :: "char \<Rightarrow> bool" where
  "needs_escape c = (c = CHR 0x22 \<or> c = CHR 0x5C \<or> (of_char c :: nat) < 32)"

definition hex_digit :: "nat \<Rightarrow> char" where
  "hex_digit n = ''0123456789abcdef'' ! n"

fun spec_escape :: "string \<Rightarrow> string" where
  "spec_escape [] = []"
| "spec_escape (c # cs) =
     (if c = CHR 0x22 then [CHR 0x5C, CHR 0x22]
      else if c = CHR 0x5C then [CHR 0x5C, CHR 0x5C]
      else if (of_char c :: nat) < 32 then
        CHR 0x5C # ''u00'' @ [hex_digit (of_char c div 16), hex_digit (of_char c mod 16)]
      else [c])
     @ spec_escape cs"

fun comma_join :: "string list \<Rightarrow> string" where
  "comma_join [] = []"
| "comma_join [piece] = piece"
| "comma_join (piece # next_piece # rest) = piece @ '','' @ comma_join (next_piece # rest)"

fun spec_compact_json :: "json \<Rightarrow> string" where
  \<open>spec_compact_json (JString s) = ''"'' @ spec_escape s @ ''"''\<close>
| \<open>spec_compact_json (JNumber s) = s\<close>
| \<open>spec_compact_json JTrue = ''true''\<close>
| \<open>spec_compact_json JFalse = ''false''\<close>
| \<open>spec_compact_json JNull = ''null''\<close>
| \<open>spec_compact_json (JObject elems) =
     ''{'' @ comma_join
              (map (\<lambda>(name, v). ''"'' @ spec_escape name @ ''":'' @ spec_compact_json v) elems)
       @ ''}''\<close>
| \<open>spec_compact_json (JArray elems) =
     ''['' @ comma_join (map spec_compact_json elems) @ '']''\<close>

fun escape_free :: "json \<Rightarrow> bool" where
  "escape_free (JString s) = list_all (\<lambda>c. \<not> needs_escape c) s"
| "escape_free (JNumber s) = True"
| "escape_free (JObject elems) =
     list_all (\<lambda>(name, v). list_all (\<lambda>c. \<not> needs_escape c) name \<and> escape_free v) elems"
| "escape_free (JArray elems) = list_all escape_free elems"
| "escape_free JTrue = True"
| "escape_free JFalse = True"
| "escape_free JNull = True"


text \<open>
  The features loop, feature by feature. An entry of the \<open>features\<close> array is skipped when
  it is not an object or its \<open>geometry\<close> is absent or null; the geometries of an entry
  are what \<open>parseGeometry\<close> returns on its \<open>geometry\<close>; its expansion is one feature per
  geometry, each with the property map of the entry.
\<close>

definition feature_skipped :: "json \<Rightarrow> bool" where
  "feature_skipped feat_elem =
     (case get_object (Some feat_elem) of
        None \<Rightarrow> True
      | Some feat_obj \<Rightarrow>
          (case find_element (Some feat_obj) ''geometry'' of
             None \<Rightarrow> True
           | Some geom_v \<Rightarrow> jtype geom_v = json_type_null))"

definition feature_geometries ::
    "(string \<Rightarrow> 'n option) \<Rightarrow> ('n WGS \<Rightarrow> 'n Datum \<Rightarrow> 'n ENU) \<Rightarrow>
     json \<Rightarrow> 'n Datum \<Rightarrow> CRS \<Rightarrow> error + ('n::zero) Geometry list" where
  "feature_geometries stod toENU feat_elem dat crs =
     parseGeometry stod toENU
       (get_object (find_element (get_object (Some feat_elem)) ''geometry'')) dat crs"

definition feature_properties :: "json \<Rightarrow> (string \<rightharpoonup> string)" where
  "feature_properties feat_elem =
     (case get_object (Some feat_elem) of
        None \<Rightarrow> Map.empty
      | Some feat_obj \<Rightarrow> feature_props_map feat_obj)"

definition feature_expansion ::
    "(string \<Rightarrow> 'n option) \<Rightarrow> ('n WGS \<Rightarrow> 'n Datum \<Rightarrow> 'n ENU) \<Rightarrow>
     'n Datum \<Rightarrow> CRS \<Rightarrow> json \<Rightarrow> ('n::zero) Feature list" where
  "feature_expansion stod toENU dat crs feat_elem =
     (case feature_geometries stod toENU feat_elem dat crs of
        Inl e \<Rightarrow> []
      | Inr geoms \<Rightarrow>
          map (\<lambda>g. \<lparr>geometry = g, properties = feature_properties feat_elem\<rparr>) geoms)"

text \<open>The entries of the \<open>features\<close> array of the normalised document.\<close>

definition input_features :: "json option \<Rightarrow> json list" where
  "input_features fc_json =
     (case array_field (get_object fc_json) ''features'' of
        None \<Rightarrow> []
      | Some features_arr \<Rightarrow> features_arr)"


section \<open>Sample documents\<close>

text \<open>
  Four documents, each as the text of the file and as the tree the JSON library builds
  from it, and the parser instance that knows exactly these four texts. The third text is
  the wrapper that \<open>op::ReadFeatureCollection\<close> writes around the second.
\<close>

definition collection_text :: string where
  \<open>collection_text =
     ''{"type":"FeatureCollection","properties":{"crs":"ENU","datum":[0,0,0],"heading":0,"site":"yard"},"features":[{"type":"Feature","geometry":{"type":"MultiPoint","coordinates":[[1,2],[3,3]]},"properties":{"name":"posts"}},{"type":"Feature","geometry":null,"properties":{}},{"type":"Feature","geometry":{"type":"LineString","coordinates":[[0,0],[1,2]]},"properties":{}}]}''\<close>

definition georeference :: json where
  "georeference =
     JObject [(''crs'', JString ''ENU''),
              (''datum'', JArray [JNumber ''0'', JNumber ''0'', JNumber ''0'']),
              (''heading'', JNumber ''0'')]"

definition collection_tree :: json where
  "collection_tree =
     JObject
       [(''type'', JString ''FeatureCollection''),
        (''properties'',
           JObject [(''crs'', JString ''ENU''),
                    (''datum'', JArray [JNumber ''0'', JNumber ''0'', JNumber ''0'']),
                    (''heading'', JNumber ''0''),
                    (''site'', JString ''yard'')]),
        (''features'',
           JArray
             [JObject
                [(''type'', JString ''Feature''),
                 (''geometry'',
                    JObject [(''type'', JString ''MultiPoint''),
                             (''coordinates'',
                                JArray [JArray [JNumber ''1'', JNumber ''2''],
                                        JArray [JNumber ''3'', JNumber ''3'']])]),
                 (''properties'', JObject [(''name'', JString ''posts'')])],
              JObject
                [(''type'', JString ''Feature''),
                 (''geometry'', JNull),
                 (''properties'', JObject [])],
              JObject
                [(''type'', JString ''Feature''),
                 (''geometry'',
                    JObject [(''type'', JString ''LineString''),
                             (''coordinates'',
                                JArray [JArray [JNumber ''0'', JNumber ''0''],
                                        JArray [JNumber ''1'', JNumber ''2'']])]),
                 (''properties'', JObject [])]])]"

definition bare_point_text :: string where
  \<open>bare_point_text =
     ''{"type":"Point","coordinates":[1,2],"properties":{"crs":"ENU","datum":[0,0,0],"heading":0}}''\<close>

definition bare_point_tree :: json where
  "bare_point_tree =
     JObject [(''type'', JString ''Point''),
              (''coordinates'', JArray [JNumber ''1'', JNumber ''2'']),
              (''properties'', georeference)]"

definition wrapped_point_text :: string where
  \<open>wrapped_point_text =
     ''{"type":"FeatureCollection","features":[{"type":"Feature","geometry":{"type":"Point","coordinates":[1,2],"properties":{"crs":"ENU","datum":[0,0,0],"heading":0}},"properties":{}}]}''\<close>

definition wrapped_point_tree :: json where
  "wrapped_point_tree =
     JObject [(''type'', JString ''FeatureCollection''),
              (''features'',
                 JArray [JObject [(''type'', JString ''Feature''),
                                  (''geometry'', bare_point_tree),
                                  (''properties'', JObject [])]])]"

definition point_collection_text :: string where
  \<open>point_collection_text =
     ''{"type":"FeatureCollection","properties":{"crs":"ENU","datum":[0,0,0],"heading":0},"features":[{"type":"Feature","geometry":{"type":"Point","coordinates":[1,2]},"properties":{}}]}''\<close>

definition point_collection_tree :: json where
  "point_collection_tree =
     JObject [(''type'', JString ''FeatureCollection''),
              (''properties'', georeference),
              (''features'',
                 JArray [JObject [(''type'', JString ''Feature''),
                                  (''geometry'',
                                     JObject [(''type'', JString ''Point''),
                                              (''coordinates'',
                                                 JArray [JNumber ''1'', JNumber ''2''])]),
                                  (''properties'', JObject [])]])]"

definition sample_json_parse :: "string \<Rightarrow> json option" where
  "sample_json_parse content =
     (if content = collection_text then Some collection_tree
      else if content = bare_point_text then Some bare_point_tree
      else if content = wrapped_point_text then Some wrapped_point_tree
      else if content = point_collection_text then Some point_collection_tree
      else None)"


definition collection_model :: "real FeatureCollection" where
  "collection_model =
     \<lparr>datum = Datum 0 0 0, heading = Euler 0 0 0,
      features =
        [\<lparr>geometry = GeomPoint (Point 1 2 0), properties = [''name'' \<mapsto> ''posts'']\<rparr>,
         \<lparr>geometry = GeomPoint (Point 3 3 0), properties = [''name'' \<mapsto> ''posts'']\<rparr>,
         \<lparr>geometry = GeomLine (Line (Point 0 0 0) (Point 1 2 0)), properties = Map.empty\<rparr>],
      global_properties = [''site'' \<mapsto> ''yard'']\<rparr>"

section \<open>The coordinate reference system\<close>

text \<open>
  Claim C7. \<open>parseCRS\<close> returns the geodetic tag on exactly the strings \<open>EPSG:4326\<close>,
  \<open>WGS84\<close> and \<open>WGS\<close>, the local planar tag on exactly \<open>ENU\<close> and \<open>ECEF\<close>, and
  raises the unknown-CRS error on every other string; it never does both.
\<close>

theorem parseCRS_exact:
  "(parseCRS s = Inr CRS_WGS \<longleftrightarrow> s \<in> {''EPSG:4326'', ''WGS84'', ''WGS''}) \<and>
   (parseCRS s = Inr CRS_ENU \<longleftrightarrow> s \<in> {''ENU'', ''ECEF''}) \<and>
   (parseCRS s = Inl (UnknownCRS s) \<longleftrightarrow>
      s \<notin> {''EPSG:4326'', ''WGS84'', ''WGS'', ''ENU'', ''ECEF''}) \<and>
   (\<exists>c. parseCRS s = Inr c) \<noteq> (\<exists>e. parseCRS s = Inl e)"
  by simp

section \<open>Points\<close>














section \<open>Line strings and polygons\<close>

lemma points_loop_skip:
  "points_loop stod toENU elems dat crs pts
     = points_loop stod toENU (filter (\<lambda>e. jtype e = json_type_array) elems) dat crs pts"
proof (induction elems arbitrary: pts)
  case Nil
  show ?case by simp
next
  case (Cons e elems)
  show ?case
  proof (cases e)
    case (JArray a)
    then show ?thesis using Cons.IH by (simp split: sum.splits)
  qed (use Cons.IH in simp_all)
qed

lemma parseGeometry_LineString:
  "parseGeometry stod toENU
       (Some ((''type'', JString ''LineString'') # (''coordinates'', JArray coords) # others))
       dat crs
     = (case parseLineString stod toENU (Some coords) dat crs of
          Inl e \<Rightarrow> Inl e
        | Inr g \<Rightarrow> Inr [g])"
  by (simp add: c_str_def array_field_def)

lemma parseGeometry_Polygon:
  "parseGeometry stod toENU
       (Some ((''type'', JString ''Polygon'') # (''coordinates'', JArray rings) # others))
       dat crs
     = (case parsePolygon stod toENU (Some rings) dat crs of
          Inl e \<Rightarrow> Inl e
        | Inr pg \<Rightarrow> Inr [GeomPolygon pg])"
  by (simp add: c_str_def array_field_def)

text \<open>
  Claim C5. When the loop over the coordinates produces the points \<open>pts\<close>, the result is
  the line of the two points if there are exactly two and the path \<open>pts\<close> otherwise;
  whenever a result is returned it is a line exactly when two points were produced; and a
  path of length two is never returned. A LineString geometry yields exactly this result.
\<close>

theorem parseLineString_line_iff_two:
  "(points_loop stod toENU coords dat crs [] = Inr pts \<longrightarrow>
      (length pts = 2 \<longrightarrow>
         parseLineString stod toENU (Some coords) dat crs
           = Inr (GeomLine (Line (pts ! 0) (pts ! 1)))) \<and>
      (length pts \<noteq> 2 \<longrightarrow>
         parseLineString stod toENU (Some coords) dat crs = Inr (GeomPath pts))) \<and>
   (parseLineString stod toENU (Some coords) dat crs = Inr g \<longrightarrow>
      (\<exists>pts. points_loop stod toENU coords dat crs [] = Inr pts \<and>
         ((\<exists>l. g = GeomLine l) \<longleftrightarrow> length pts = 2) \<and>
         (g = GeomPath pts \<longleftrightarrow> length pts \<noteq> 2))) \<and>
   (parseLineString stod toENU c dat crs = Inr (GeomPath ps) \<longrightarrow> length ps \<noteq> 2) \<and>
   parseGeometry stod toENU
       (Some ((''type'', JString ''LineString'') # (''coordinates'', JArray coords) # others))
       dat crs
     = (case parseLineString stod toENU (Some coords) dat crs of
          Inl e \<Rightarrow> Inl e
        | Inr g \<Rightarrow> Inr [g])"
proof -
  have "(points_loop stod toENU coords dat crs [] = Inr pts \<longrightarrow>
      (length pts = 2 \<longrightarrow>
         parseLineString stod toENU (Some coords) dat crs
           = Inr (GeomLine (Line (pts ! 0) (pts ! 1)))) \<and>
      (length pts \<noteq> 2 \<longrightarrow>
         parseLineString stod toENU (Some coords) dat crs = Inr (GeomPath pts))) \<and>
   (parseLineString stod toENU (Some coords) dat crs = Inr g \<longrightarrow>
      (\<exists>pts. points_loop stod toENU coords dat crs [] = Inr pts \<and>
         ((\<exists>l. g = GeomLine l) \<longleftrightarrow> length pts = 2) \<and>
         (g = GeomPath pts \<longleftrightarrow> length pts \<noteq> 2))) \<and>
   (parseLineString stod toENU c dat crs = Inr (GeomPath ps) \<longrightarrow> length ps \<noteq> 2)"
    by (auto simp: parseLineString_def split: option.splits sum.splits if_splits)
  with parseGeometry_LineString [of stod toENU coords others dat crs] show ?thesis
    by (simp only: simp_thms)
qed

theorem parseLineString_line_iff_two_witness:
  "points_loop sample_stod sample_toENU
       [JArray [JNumber ''0'', JNumber ''0''], JArray [JNumber ''1'', JNumber ''2'']]
       (Datum 0 0 0) CRS_ENU []
     = Inr [Point 0 0 0, Point 1 2 0] \<and>
   parseLineString sample_stod sample_toENU
       (Some [JArray [JNumber ''0'', JNumber ''0''], JArray [JNumber ''1'', JNumber ''2'']])
       (Datum 0 0 0) CRS_ENU
     = Inr (GeomLine (Line (Point 0 0 0) (Point 1 2 0))) \<and>
   points_loop sample_stod sample_toENU
       [JArray [JNumber ''0'', JNumber ''0''], JArray [JNumber ''1'', JNumber ''2''],
        JArray [JNumber ''3'', JNumber ''3'']]
       (Datum 0 0 0) CRS_ENU []
     = Inr [Point 0 0 0, Point 1 2 0, Point 3 3 0] \<and>
   parseLineString sample_stod sample_toENU
       (Some [JArray [JNumber ''0'', JNumber ''0''], JArray [JNumber ''1'', JNumber ''2''],
        JArray [JNumber ''3'', JNumber ''3'']])
       (Datum 0 0 0) CRS_ENU
     = Inr (GeomPath [Point 0 0 0, Point 1 2 0, Point 3 3 0])"
proof -
  let ?two = "[JArray [JNumber ''0'', JNumber ''0''], JArray [JNumber ''1'', JNumber ''2'']]"
  let ?three = "[JArray [JNumber ''0'', JNumber ''0''], JArray [JNumber ''1'', JNumber ''2''],
        JArray [JNumber ''3'', JNumber ''3'']]"
  have two: "points_loop sample_stod sample_toENU ?two (Datum 0 0 0) CRS_ENU []
      = Inr [Point 0 0 0, Point 1 2 0]"
    by (simp add: parsePoint_def sample_stod_def)
  have three: "points_loop sample_stod sample_toENU ?three (Datum 0 0 0) CRS_ENU []
      = Inr [Point 0 0 0, Point 1 2 0, Point 3 3 0]"
    by (simp add: parsePoint_def sample_stod_def)
  have l2: "parseLineString sample_stod sample_toENU (Some ?two) (Datum 0 0 0) CRS_ENU
      = Inr (GeomLine (Line ([Point 0 0 0, Point 1 2 0] ! 0) ([Point 0 0 0, Point 1 2 0] ! 1)))"
    using parseLineString_line_iff_two
         [of sample_stod sample_toENU ?two "Datum 0 0 0" CRS_ENU "[Point 0 0 0, Point 1 2 0]",
          THEN conjunct1, rule_format, THEN conjunct1, rule_format, OF two]
    by simp
  have l3: "parseLineString sample_stod sample_toENU (Some ?three) (Datum 0 0 0) CRS_ENU
      = Inr (GeomPath [Point 0 0 0, Point 1 2 0, Point 3 3 0])"
    using parseLineString_line_iff_two
         [of sample_stod sample_toENU ?three "Datum 0 0 0" CRS_ENU
             "[Point 0 0 0, Point 1 2 0, Point 3 3 0]",
          THEN conjunct1, rule_format, THEN conjunct2, rule_format, OF three]
    by simp
  from two three l2 l3 show ?thesis by simp
qed

text \<open>
  Claim C10. Entries of the coordinates that are not arrays are passed over, so only the
  parsed points count: of the three entries below two are arrays, and the result is a line.
\<close>

theorem parseLineString_counts_parsed_points:
  "parseLineString stod toENU (Some coords) dat crs
     = parseLineString stod toENU (Some (filter (\<lambda>e. jtype e = json_type_array) coords)) dat crs \<and>
   parseLineString sample_stod sample_toENU
       (Some [JArray [JNumber ''0'', JNumber ''0''], JString ''between'',
              JArray [JNumber ''1'', JNumber ''2'']])
       (Datum 0 0 0) CRS_ENU
     = Inr (GeomLine (Line (Point 0 0 0) (Point 1 2 0)))"
proof
  show "parseLineString stod toENU (Some coords) dat crs
     = parseLineString stod toENU (Some (filter (\<lambda>e. jtype e = json_type_array) coords)) dat crs"
    unfolding parseLineString_def using points_loop_skip [of stod toENU coords dat crs "[]"]
    by simp
  show "parseLineString sample_stod sample_toENU
       (Some [JArray [JNumber ''0'', JNumber ''0''], JString ''between'',
              JArray [JNumber ''1'', JNumber ''2'']])
       (Datum 0 0 0) CRS_ENU
     = Inr (GeomLine (Line (Point 0 0 0) (Point 1 2 0)))"
    by (simp add: parseLineString_def parsePoint_def sample_stod_def)
qed

text \<open>
  Claim C6. A polygon is parsed from its first ring alone: the rings after it change
  nothing, and the points are those of the loop over the first ring. A Polygon geometry
  with further rings yields what the same geometry with only its first ring yields.
\<close>

theorem parsePolygon_first_ring_only:
  "parsePolygon stod toENU (Some (ring # holes)) dat crs
     = parsePolygon stod toENU (Some [ring]) dat crs \<and>
   parsePolygon stod toENU (Some (ring # holes)) dat crs
     = (case get_array (Some ring) of
          None \<Rightarrow> Inr (Polygon [])
        | Some ring_arr \<Rightarrow> map_sum id Polygon (points_loop stod toENU ring_arr dat crs [])) \<and>
   parseGeometry stod toENU
       (Some ((''type'', JString ''Polygon'') # (''coordinates'', JArray (ring # holes)) # others))
       dat crs
     = parseGeometry stod toENU
         (Some ((''type'', JString ''Polygon'') # (''coordinates'', JArray [ring]) # others))
         dat crs"
proof -
  have 1: "parsePolygon stod toENU (Some (ring # holes)) dat crs
     = parsePolygon stod toENU (Some [ring]) dat crs"
    by (simp add: parsePolygon_def)
  have 2: "parsePolygon stod toENU (Some (ring # holes)) dat crs
     = (case get_array (Some ring) of
          None \<Rightarrow> Inr (Polygon [])
        | Some ring_arr \<Rightarrow> map_sum id Polygon (points_loop stod toENU ring_arr dat crs []))"
    by (simp add: parsePolygon_def split: option.splits sum.splits)
  have 3: "parseGeometry stod toENU
       (Some ((''type'', JString ''Polygon'') # (''coordinates'', JArray (ring # holes)) # others))
       dat crs
     = parseGeometry stod toENU
         (Some ((''type'', JString ''Polygon'') # (''coordinates'', JArray [ring]) # others))
         dat crs"
    by (simp only: parseGeometry_Polygon 1)
  from 1 2 3 show ?thesis by (intro conjI)
qed

section \<open>Flattening properties\<close>

lemma append_pieces_closed:
  "append_pieces first result pieces
     = result @ (case pieces of
                   [] \<Rightarrow> []
                 | p # rest \<Rightarrow> (if first then p else '','' @ p) @ concat (map ((@) '','') rest))"
proof (induction pieces arbitrary: first result)
  case Nil
  show ?case by simp
next
  case (Cons p pieces)
  show ?case by (simp add: Cons.IH split: list.splits)
qed

lemma set_append_pieces:
  "set (append_pieces first result pieces)
     \<subseteq> set result \<union> {CHR '',''} \<union> (\<Union>p \<in> set pieces. set p)"
proof (induction pieces arbitrary: first result)
  case Nil
  show ?case by auto
next
  case (Cons p pieces)
  have "set (append_pieces False ((if \<not> first then result @ '','' else result) @ p) pieces)
      \<subseteq> set ((if \<not> first then result @ '','' else result) @ p) \<union> {CHR '',''}
          \<union> (\<Union>q \<in> set pieces. set q)"
    by (rule Cons.IH)
  also have "\<dots> \<subseteq> set result \<union> {CHR '',''} \<union> (\<Union>q \<in> set (p # pieces). set q)"
    by (cases first) auto
  finally show ?case by simp
qed

lemma parseProperties_loop_lookup:
  "parseProperties_loop m elems k
     = (case map_of (rev elems) k of
          None \<Rightarrow> m k
        | Some v \<Rightarrow> Some (case v of JString s \<Rightarrow> s | _ \<Rightarrow> serialize_value (Some v)))"
proof (induction elems arbitrary: m)
  case Nil
  show ?case by simp
next
  case (Cons kv elems)
  obtain key v where kv: "kv = (key, v)" by (cases kv)
  show ?case
    unfolding kv
    by (cases v) (simp_all add: Cons.IH map_add_def split: option.splits)
qed

lemma dom_parseProperties_loop:
  "dom (parseProperties_loop m elems) = dom m \<union> fst ` set elems"
proof (induction elems arbitrary: m)
  case Nil
  show ?case by simp
next
  case (Cons kv elems)
  obtain key v where kv: "kv = (key, v)" by (cases kv)
  show ?case
    unfolding kv
    by (cases "jtype v = json_type_string") (auto simp: Cons.IH)
qed

lemma structural_chars_facts:
  \<open>CHR '','' \<in> structural_chars\<close>
  \<open>CHR ''{'' \<in> structural_chars\<close>
  \<open>CHR ''}'' \<in> structural_chars\<close>
  \<open>CHR ''['' \<in> structural_chars\<close>
  \<open>CHR '']'' \<in> structural_chars\<close>
  \<open>CHR '':'' \<in> structural_chars\<close>
  \<open>CHR 0x22 \<in> structural_chars\<close>
  \<open>set ''true'' \<subseteq> structural_chars\<close>
  \<open>set ''false'' \<subseteq> structural_chars\<close>
  \<open>set ''null'' \<subseteq> structural_chars\<close>
  by (simp_all add: structural_chars_def)

lemma payload_text_object_member:
  "(name, w) \<in> set elems \<Longrightarrow>
     set name \<union> set (payload_text w) \<subseteq> set (payload_text (JObject elems))"
  by (induction elems) auto

lemma payload_text_array_member:
  "w \<in> set elems \<Longrightarrow> set (payload_text w) \<subseteq> set (payload_text (JArray elems))"
  by (induction elems) auto

lemma set_object_piece:
  \<open>set (''"'' @ name @ ''":'' @ t) = {CHR 0x22, CHR '':''} \<union> set name \<union> set t\<close>
  by auto

lemma set_pieces_bound:
  assumes "\<And>p. p \<in> set pieces \<Longrightarrow> set p \<subseteq> A"
    and "set result \<subseteq> A" and "CHR '','' \<in> A"
  shows "set (append_pieces first result pieces) \<subseteq> A"
proof -
  have "set (append_pieces first result pieces)
      \<subseteq> set result \<union> {CHR '',''} \<union> (\<Union>p \<in> set pieces. set p)"
    by (rule set_append_pieces)
  moreover have "(\<Union>p \<in> set pieces. set p) \<subseteq> A" using assms(1) by blast
  ultimately show ?thesis using assms(2,3) by blast
qed

lemma set_quoted: \<open>set (''"'' @ s @ ''"'') = insert (CHR 0x22) (set s)\<close>
  by auto

lemma set_serialize_value:
  "set (serialize_value (Some v)) \<subseteq> set (payload_text v) \<union> structural_chars"
proof (induction v)
  case (JString s)
  have \<open>serialize_value (Some (JString s)) = ''"'' @ s @ ''"''\<close> by simp
  then have "set (serialize_value (Some (JString s))) = insert (CHR 0x22) (set s)"
    by (simp only: set_quoted)
  moreover have "payload_text (JString s) = s" by simp
  ultimately show ?case using structural_chars_facts(7) by (simp only:) blast
next
  case (JNumber s)
  show ?case by simp
next
  case (JObject elems)
  define A where "A = set (payload_text (JObject elems)) \<union> structural_chars"
  let ?pieces = \<open>map (\<lambda>(name, w). ''"'' @ name @ ''":'' @ serialize_value (Some w)) elems\<close>
  have sc: "structural_chars \<subseteq> A" unfolding A_def by blast
  have piece: "set p \<subseteq> A" if "p \<in> set ?pieces" for p
  proof -
    from that obtain name w where nw: "(name, w) \<in> set elems"
        \<open>p = ''"'' @ name @ ''":'' @ serialize_value (Some w)\<close>
      by auto
    from nw(1) have "w \<in> Basic_BNFs.snds (name, w)" by simp
    with JObject.IH nw(1)
    have 1: "set (serialize_value (Some w)) \<subseteq> set (payload_text w) \<union> structural_chars"
      by blast
    note 2 = payload_text_object_member [OF nw(1)]
    from 2 have a: "set name \<subseteq> A" unfolding A_def by blast
    from 1 2 have b: "set (serialize_value (Some w)) \<subseteq> A" unfolding A_def by blast
    from sc structural_chars_facts(6,7) have c: "CHR 0x22 \<in> A" "CHR '':'' \<in> A" by blast+
    have "set p = {CHR 0x22, CHR '':''} \<union> set name \<union> set (serialize_value (Some w))"
      unfolding nw(2) by (rule set_object_piece)
    then show ?thesis using a b c by (simp only: Un_subset_iff insert_subset empty_subsetI simp_thms)
  qed
  have "set (append_pieces True ''{'' ?pieces) \<subseteq> A"
  proof (rule set_pieces_bound)
    show "set p \<subseteq> A" if "p \<in> set ?pieces" for p using that by (rule piece)
    show "set ''{'' \<subseteq> A" using sc structural_chars_facts(2) by auto
    show "CHR '','' \<in> A" using sc structural_chars_facts(1) by blast
  qed
  moreover have "set ''}'' \<subseteq> A" using sc structural_chars_facts(3) by auto
  moreover have "serialize_value (Some (JObject elems)) = append_pieces True ''{'' ?pieces @ ''}''"
    by simp
  ultimately have "set (serialize_value (Some (JObject elems))) \<subseteq> A"
    by (simp only: set_append Un_subset_iff simp_thms)
  then show ?case unfolding A_def .
next
  case (JArray elems)
  define A where "A = set (payload_text (JArray elems)) \<union> structural_chars"
  let ?pieces = "map (\<lambda>w. serialize_value (Some w)) elems"
  have sc: "structural_chars \<subseteq> A" unfolding A_def by blast
  have piece: "set p \<subseteq> A" if "p \<in> set ?pieces" for p
  proof -
    from that obtain w where w: "w \<in> set elems" "p = serialize_value (Some w)" by auto
    with JArray.IH
    have "set p \<subseteq> set (payload_text w) \<union> structural_chars" by blast
    with payload_text_array_member [OF w(1)] show ?thesis unfolding A_def by blast
  qed
  have "set (append_pieces True ''['' ?pieces) \<subseteq> A"
  proof (rule set_pieces_bound)
    show "set p \<subseteq> A" if "p \<in> set ?pieces" for p using that by (rule piece)
    show "set ''['' \<subseteq> A" using sc structural_chars_facts(4) by auto
    show "CHR '','' \<in> A" using sc structural_chars_facts(1) by blast
  qed
  moreover have "set '']'' \<subseteq> A" using sc structural_chars_facts(5) by auto
  moreover have "serialize_value (Some (JArray elems)) = append_pieces True ''['' ?pieces @ '']''"
    by simp
  ultimately have "set (serialize_value (Some (JArray elems))) \<subseteq> A"
    by (simp only: set_append Un_subset_iff simp_thms)
  then show ?case unfolding A_def .
next
  case JTrue
  show ?case using structural_chars_facts(8) by simp
next
  case JFalse
  show ?case using structural_chars_facts(9) by simp
next
  case JNull
  show ?case using structural_chars_facts(10) by simp
qed

lemma append_pieces_first:
  "append_pieces True result pieces
     = result @ (case pieces of [] \<Rightarrow> [] | p # rest \<Rightarrow> p @ concat (map ((@) '','') rest))"
  by (cases pieces) (simp_all add: append_pieces_closed)

lemma parseProperties_example:
  "parseProperties (Some [(''a'', JString ''x''), (''b'', JNumber ''3''), (''c'', JTrue)])
     = [''a'' \<mapsto> ''x'', ''b'' \<mapsto> ''3'', ''c'' \<mapsto> ''true'']"
  by (simp add: parseProperties_def)


lemma spec_escape_id:
  "list_all (\<lambda>c. \<not> needs_escape c) s \<Longrightarrow> spec_escape s = s"
  by (induction s) (auto simp: needs_escape_def)

lemma append_pieces_join:
  "append_pieces first result pieces
     = result @ (if first then comma_join pieces else concat (map ((#) CHR '','') pieces))"
proof (induction pieces arbitrary: first result)
  case Nil
  show ?case by simp
next
  case (Cons p pieces)
  have j: "comma_join (p # pieces) = p @ concat (map ((#) CHR '','') pieces)" for p
    by (induction pieces arbitrary: p) simp_all
  show ?case by (simp add: Cons.IH j)
qed

lemma serialize_value_compact:
  "escape_free v \<Longrightarrow> serialize_value (Some v) = spec_compact_json v"
proof (induction v)
  case (JString s)
  then show ?case by (simp add: spec_escape_id)
next
  case (JObject elems)
  have \<open>map (\<lambda>(name, w). ''"'' @ name @ ''":'' @ serialize_value (Some w)) elems
      = map (\<lambda>(name, w). ''"'' @ spec_escape name @ ''":'' @ spec_compact_json w) elems\<close>
  proof (rule map_cong [OF refl])
    fix nw assume m: "nw \<in> set elems"
    obtain name w where nw: "nw = (name, w)" by (cases nw)
    from m nw JObject.prems have e: "list_all (\<lambda>c. \<not> needs_escape c) name" "escape_free w"
      by (auto simp: list_all_iff)
    from m nw have "w \<in> Basic_BNFs.snds nw" by simp
    with JObject.IH m e(2) have "serialize_value (Some w) = spec_compact_json w" by blast
    with e(1) show \<open>(case nw of (name, w) \<Rightarrow> ''"'' @ name @ ''":'' @ serialize_value (Some w))
        = (case nw of (name, w) \<Rightarrow> ''"'' @ spec_escape name @ ''":'' @ spec_compact_json w)\<close>
      unfolding nw by (simp add: spec_escape_id)
  qed
  then show ?case
    by (simp only: serialize_value.simps spec_compact_json.simps append_pieces_join if_True
          append_assoc)
next
  case (JArray elems)
  have "map (\<lambda>w. serialize_value (Some w)) elems = map spec_compact_json elems"
  proof (rule map_cong [OF refl])
    fix w assume m: "w \<in> set elems"
    with JArray.prems have "escape_free w" by (simp add: list_all_iff)
    with JArray.IH m show "serialize_value (Some w) = spec_compact_json w" by blast
  qed
  then show ?case
    by (simp only: serialize_value.simps spec_compact_json.simps append_pieces_join if_True
          append_assoc)
qed simp_all

lemma parseProperties_lookup:
  "parseProperties (Some obj) k
     = (case map_of (rev obj) k of
          None \<Rightarrow> None
        | Some v \<Rightarrow> Some (case v of JString s \<Rightarrow> s | _ \<Rightarrow> serialize_value (Some v)))"
  by (simp add: parseProperties_def parseProperties_loop_lookup)


text \<open>
  Claim C8, as the code has it. An absent object gives the empty mapping. The mapping of an
  object has one entry per distinct field name; the entry of a name comes from the last
  field of that name: a string is copied verbatim, any other value is serialised. On an
  object whose names are distinct this is one entry per field. The serialisation of a value
  that is free of escapes is its compact JSON text. The serialisation of any object or
  array is its pieces in document order with single commas between them and nothing else,
  and every character of a serialisation is a payload character or one of the structural
  characters, so no white space is inserted. The object \<open>{"a": "x", "b": 3, "c": true}\<close>
  flattens to \<open>a \<mapsto> x, b \<mapsto> 3, c \<mapsto> true\<close>.
\<close>

theorem parseProperties_flattens:
  \<open>parseProperties None = Map.empty \<and>
   parseProperties (Some obj) k
     = (case map_of (rev obj) k of
          None \<Rightarrow> None
        | Some v \<Rightarrow> Some (case v of JString s \<Rightarrow> s | _ \<Rightarrow> serialize_value (Some v))) \<and>
   dom (parseProperties (Some obj)) = fst ` set obj \<and>
   (distinct (map fst obj) \<longrightarrow> card (dom (parseProperties (Some obj))) = length obj) \<and>
   (escape_free u \<longrightarrow> serialize_value (Some u) = spec_compact_json u) \<and>
   serialize_value (Some (JObject elems))
     = ''{'' @ (case map (\<lambda>(name, w). ''"'' @ name @ ''":'' @ serialize_value (Some w)) elems of
                 [] \<Rightarrow> []
               | p # rest \<Rightarrow> p @ concat (map ((@) '','') rest)) @ ''}'' \<and>
   serialize_value (Some (JArray vs))
     = ''['' @ (case map (\<lambda>w. serialize_value (Some w)) vs of
                 [] \<Rightarrow> []
               | p # rest \<Rightarrow> p @ concat (map ((@) '','') rest)) @ '']'' \<and>
   set (serialize_value (Some u)) \<subseteq> set (payload_text u) \<union> structural_chars \<and>
   parseProperties (Some [(''a'', JString ''x''), (''b'', JNumber ''3''), (''c'', JTrue)])
     = [''a'' \<mapsto> ''x'', ''b'' \<mapsto> ''3'', ''c'' \<mapsto> ''true'']\<close>
proof (intro conjI impI)
  show "parseProperties None = Map.empty" by (simp add: parseProperties_def)
  show "parseProperties (Some obj) k
     = (case map_of (rev obj) k of
          None \<Rightarrow> None
        | Some v \<Rightarrow> Some (case v of JString s \<Rightarrow> s | _ \<Rightarrow> serialize_value (Some v)))"
    by (rule parseProperties_lookup)
  show d: "dom (parseProperties (Some obj)) = fst ` set obj"
    by (simp add: parseProperties_def dom_parseProperties_loop)
  show "card (dom (parseProperties (Some obj))) = length obj" if "distinct (map fst obj)"
    using that distinct_card [of "map fst obj"] by (simp add: d)
  show "serialize_value (Some u) = spec_compact_json u" if "escape_free u"
    using that by (rule serialize_value_compact)
  show \<open>serialize_value (Some (JObject elems))
     = ''{'' @ (case map (\<lambda>(name, w). ''"'' @ name @ ''":'' @ serialize_value (Some w)) elems of
                 [] \<Rightarrow> []
               | p # rest \<Rightarrow> p @ concat (map ((@) '','') rest)) @ ''}''\<close>
    by (simp add: append_pieces_first)
  show "serialize_value (Some (JArray vs))
     = ''['' @ (case map (\<lambda>w. serialize_value (Some w)) vs of
                 [] \<Rightarrow> []
               | p # rest \<Rightarrow> p @ concat (map ((@) '','') rest)) @ '']''"
    by (simp add: append_pieces_first)
  show "set (serialize_value (Some u)) \<subseteq> set (payload_text u) \<union> structural_chars"
    by (rule set_serialize_value)
  show "parseProperties (Some [(''a'', JString ''x''), (''b'', JNumber ''3''), (''c'', JTrue)])
     = [''a'' \<mapsto> ''x'', ''b'' \<mapsto> ''3'', ''c'' \<mapsto> ''true'']"
    by (rule parseProperties_example)
qed


text \<open>
  The claim as stated promises one entry per field of every object and JSON text for every
  value that is not a string. An object with the name \<open>a\<close> twice has two fields and its
  mapping one entry, the value of the second field. An array holding the string \<open>a"b\<close>
  is serialised with the quote written back bare, which is not the compact JSON text of
  the array, and two different arrays have the same serialisation.
\<close>

theorem parseProperties_duplicate_key_counterexample:
  \<open>parseProperties (Some [(''a'', JNumber ''1''), (''a'', JNumber ''2'')]) = [''a'' \<mapsto> ''2''] \<and>
   card (dom (parseProperties (Some [(''a'', JNumber ''1''), (''a'', JNumber ''2'')]))) = 1 \<and>
   length [(''a'', JNumber ''1''), (''a'', JNumber ''2'')] = 2 \<and>
   parseProperties (Some [(''k'', JArray [JString ''a"b''])]) ''k'' = Some ''["a"b"]'' \<and>
   spec_compact_json (JArray [JString ''a"b'']) = ''["a'' @ [CHR 0x5C] @ ''"b"]'' \<and>
   JArray [JString ''a","b''] \<noteq> JArray [JString ''a'', JString ''b''] \<and>
   serialize_value (Some (JArray [JString ''a","b'']))
     = serialize_value (Some (JArray [JString ''a'', JString ''b'']))\<close>
  by (simp add: parseProperties_def)


theorem parseProperties_flattens_witness:
  \<open>parseProperties
       (Some [(''name'', JString ''pad 1''),
              (''tags'', JArray [JNumber ''1'', JObject [(''k'', JNull), (''on'', JFalse)],
                                 JString ''a b''])])
       ''tags''
     = Some ''[1,{"k":null,"on":false},"a b"]'' \<and>
   card (dom (parseProperties
       (Some [(''name'', JString ''pad 1''),
              (''tags'', JArray [JNumber ''1'', JObject [(''k'', JNull), (''on'', JFalse)],
                                 JString ''a b''])])))
     = 2 \<and>
   serialize_value
       (Some (JArray [JNumber ''1'', JObject [(''k'', JNull), (''on'', JFalse)], JString ''a b'']))
     = spec_compact_json
         (JArray [JNumber ''1'', JObject [(''k'', JNull), (''on'', JFalse)], JString ''a b''])\<close>
proof -
  let ?v = "JArray [JNumber ''1'', JObject [(''k'', JNull), (''on'', JFalse)], JString ''a b'']"
  let ?obj = "[(''name'', JString ''pad 1''), (''tags'', ?v)]"
  note t = parseProperties_flattens [where obj = ?obj and k = "''tags''" and u = ?v]
  have d: "distinct (map fst ?obj)" by simp
  have f: "escape_free ?v" by (simp add: needs_escape_def)
  have 3: "serialize_value (Some ?v) = spec_compact_json ?v"
    by (rule t [THEN conjunct2, THEN conjunct2, THEN conjunct2, THEN conjunct2, THEN conjunct1,
                rule_format, OF f])
  have c: \<open>spec_compact_json ?v = ''[1,{"k":null,"on":false},"a b"]''\<close>
    by (simp add: needs_escape_def)
  have "parseProperties (Some ?obj) ''tags''
      = (case map_of (rev ?obj) ''tags'' of
           None \<Rightarrow> None
         | Some v \<Rightarrow> Some (case v of JString s \<Rightarrow> s | _ \<Rightarrow> serialize_value (Some v)))"
    by (rule t [THEN conjunct2, THEN conjunct1])
  also have "\<dots> = Some (serialize_value (Some ?v))" by (simp del: serialize_value.simps)
  finally have 1: \<open>parseProperties (Some ?obj) ''tags'' = Some ''[1,{"k":null,"on":false},"a b"]''\<close>
    by (simp only: 3 c)
  have 2: "card (dom (parseProperties (Some ?obj))) = 2"
    using t [THEN conjunct2, THEN conjunct2, THEN conjunct2, THEN conjunct1, rule_format, OF d]
    by simp
  from 1 2 3 show ?thesis by (intro conjI)
qed

section \<open>The features loop\<close>

lemma features_loop_skipped:
  "feature_skipped f \<Longrightarrow>
     features_loop stod toENU (f # rest) dat crs fs = features_loop stod toENU rest dat crs fs"
  by (auto simp: feature_skipped_def split: option.splits)

lemma features_loop_kept:
  "\<not> feature_skipped f \<Longrightarrow>
     features_loop stod toENU (f # rest) dat crs fs
       = (case feature_geometries stod toENU f dat crs of
            Inl e \<Rightarrow> Inl e
          | Inr geoms \<Rightarrow>
              features_loop stod toENU rest dat crs
                (fs @ feature_expansion stod toENU dat crs f))"
  by (auto simp: feature_skipped_def feature_geometries_def feature_expansion_def
        feature_properties_def split: option.splits sum.splits)

lemma features_loop_char:
  "features_loop stod toENU feats dat crs fs = Inr out \<longleftrightarrow>
     (\<forall>f \<in> set (filter (\<lambda>f. \<not> feature_skipped f) feats).
        \<exists>gs. feature_geometries stod toENU f dat crs = Inr gs) \<and>
     out = fs @ concat (map (feature_expansion stod toENU dat crs)
                          (filter (\<lambda>f. \<not> feature_skipped f) feats))"
proof (induction feats arbitrary: fs)
  case Nil
  show ?case by auto
next
  case (Cons f feats)
  show ?case
  proof (cases "feature_skipped f")
    case True
    then show ?thesis using Cons.IH [of fs] by (simp add: features_loop_skipped del: features_loop.simps)
  next
    case False
    show ?thesis
    proof (cases "feature_geometries stod toENU f dat crs")
      case (Inl e)
      with False show ?thesis by (simp add: features_loop_kept del: features_loop.simps)
    next
      case (Inr geoms)
      with False show ?thesis
        using Cons.IH [of "fs @ feature_expansion stod toENU dat crs f"]
        by (simp add: features_loop_kept del: features_loop.simps)
    qed
  qed
qed


lemma length_concat_expansion:
  "(\<forall>f \<in> set kept. \<exists>gs. feature_geometries stod toENU f dat crs = Inr gs) \<Longrightarrow>
   length (concat (map (feature_expansion stod toENU dat crs) kept))
     = (\<Sum>f\<leftarrow>kept. case feature_geometries stod toENU f dat crs of
                       Inl e \<Rightarrow> 0 | Inr gs \<Rightarrow> length gs)"
  by (induction kept) (auto simp: feature_expansion_def)

lemma multipoint_loop_char:
  "multipoint_loop stod toENU elems dat crs out = Inr res \<longleftrightarrow>
     (\<exists>ps. list_all2 (\<lambda>e p. parsePoint stod toENU (get_array (Some e)) dat crs = Inr p)
             (filter (\<lambda>e. jtype e = json_type_array) elems) ps \<and>
           res = out @ map GeomPoint ps)"
proof (induction elems arbitrary: out)
  case Nil
  show ?case by auto
next
  case (Cons e elems)
  show ?case
  proof (cases e)
    case (JArray a)
    show ?thesis
    proof (cases "parsePoint stod toENU (Some a) dat crs")
      case (Inl err)
      with JArray show ?thesis by (simp add: list_all2_Cons1)
    next
      case (Inr p)
      with JArray show ?thesis
        using Cons.IH [of "out @ [GeomPoint p]"] by (auto simp: list_all2_Cons1)
    qed
  qed (use Cons.IH [of out] in simp_all)
qed

lemma multilinestring_loop_char:
  "multilinestring_loop stod toENU elems dat crs out = Inr res \<longleftrightarrow>
     (\<exists>gs. list_all2 (\<lambda>e g. parseLineString stod toENU (get_array (Some e)) dat crs = Inr g)
             (filter (\<lambda>e. jtype e = json_type_array) elems) gs \<and>
           res = out @ gs)"
proof (induction elems arbitrary: out)
  case Nil
  show ?case by auto
next
  case (Cons e elems)
  show ?case
  proof (cases e)
    case (JArray a)
    show ?thesis
    proof (cases "parseLineString stod toENU (Some a) dat crs")
      case (Inl err)
      with JArray show ?thesis by (simp add: list_all2_Cons1)
    next
      case (Inr g)
      with JArray show ?thesis
        using Cons.IH [of "out @ [g]"] by (auto simp: list_all2_Cons1)
    qed
  qed (use Cons.IH [of out] in simp_all)
qed

lemma multipolygon_loop_char:
  "multipolygon_loop stod toENU elems dat crs out = Inr res \<longleftrightarrow>
     (\<exists>pgs. list_all2 (\<lambda>e pg. parsePolygon stod toENU (get_array (Some e)) dat crs = Inr pg)
             (filter (\<lambda>e. jtype e = json_type_array) elems) pgs \<and>
           res = out @ map GeomPolygon pgs)"
proof (induction elems arbitrary: out)
  case Nil
  show ?case by auto
next
  case (Cons e elems)
  show ?case
  proof (cases e)
    case (JArray a)
    show ?thesis
    proof (cases "parsePolygon stod toENU (Some a) dat crs")
      case (Inl err)
      with JArray show ?thesis by (simp add: list_all2_Cons1)
    next
      case (Inr pg)
      with JArray show ?thesis
        using Cons.IH [of "out @ [GeomPolygon pg]"] by (auto simp: list_all2_Cons1)
    qed
  qed (use Cons.IH [of out] in simp_all)
qed

lemma geometries_loop_char:
  "geometries_loop stod toENU elems dat crs out = Inr res \<longleftrightarrow>
     (\<exists>gss. list_all2 (\<lambda>e gs. parseGeometry stod toENU (get_object (Some e)) dat crs = Inr gs)
             (filter (\<lambda>e. jtype e = json_type_object) elems) gss \<and>
           res = out @ concat gss)"
proof (induction elems arbitrary: out)
  case Nil
  show ?case by auto
next
  case (Cons e elems)
  show ?case
  proof (cases e)
    case (JObject sub)
    show ?thesis
    proof (cases "parseGeometry stod toENU (Some sub) dat crs")
      case (Inl err)
      with JObject show ?thesis by (simp add: list_all2_Cons1 del: parseGeometry.simps)
    next
      case (Inr subs)
      with JObject show ?thesis
        using Cons.IH [of "out @ subs"] by (auto simp: list_all2_Cons1 simp del: parseGeometry.simps)
    qed
  qed (use Cons.IH [of out] in simp_all)
qed





section \<open>Whole documents\<close>

lemma serialize_bare_point:
  \<open>serialize_value (Some bare_point_tree) = bare_point_text\<close>
  by (simp add: bare_point_tree_def bare_point_text_def georeference_def)

lemma wrapped_point_text_eq:
  \<open>''{"type":"FeatureCollection","features":[{"type":"Feature","geometry":''
     @ serialize_value (Some bare_point_tree) @ '',"properties":{}}]}'' = wrapped_point_text\<close>
  by (simp add: serialize_bare_point) (simp add: bare_point_text_def wrapped_point_text_def)

lemma texts_differ:
  "bare_point_text \<noteq> collection_text" "wrapped_point_text \<noteq> collection_text"
  "wrapped_point_text \<noteq> bare_point_text" "point_collection_text \<noteq> collection_text"
  "point_collection_text \<noteq> bare_point_text" "point_collection_text \<noteq> wrapped_point_text"
  by (simp_all add: bare_point_text_def collection_text_def wrapped_point_text_def
        point_collection_text_def)

lemma sample_json_parse_simps:
  "sample_json_parse collection_text = Some collection_tree"
  "sample_json_parse bare_point_text = Some bare_point_tree"
  "sample_json_parse wrapped_point_text = Some wrapped_point_tree"
  "sample_json_parse point_collection_text = Some point_collection_tree"
  by (simp_all add: sample_json_parse_def texts_differ)

lemma op_read_bare_point:
  "op_ReadFeatureCollection sample_json_parse (Some bare_point_text) = Inr (Some wrapped_point_tree)"
proof -
  have \<open>op_ReadFeatureCollection sample_json_parse (Some bare_point_text)
      = Inr (sample_json_parse
          (''{"type":"FeatureCollection","features":[{"type":"Feature","geometry":''
             @ serialize_value (Some bare_point_tree) @ '',"properties":{}}]}''))\<close>
    by (simp add: op_ReadFeatureCollection_def sample_json_parse_simps bare_point_tree_def
          c_str_def)
  also have "\<dots> = Inr (sample_json_parse wrapped_point_text)"
    by (simp only: wrapped_point_text_eq)
  finally show ?thesis by (simp only: sample_json_parse_simps)
qed

lemma ReadFeatureCollection_Inr:
  assumes "ReadFeatureCollection json_parse stod toENU file = Inr fc"
  obtains fc_json props_v crs_v crsVal where
    "op_ReadFeatureCollection json_parse file = Inr fc_json"
    "find_element (get_object fc_json) ''properties'' = Some props_v"
    "find_element (get_object (Some props_v)) ''crs'' = Some crs_v"
    "parseCRS (get_string (Some crs_v)) = Inr crsVal"
    "features_loop stod toENU (input_features fc_json) (datum fc) crsVal [] = Inr (features fc)"
  using assms unfolding ReadFeatureCollection_def input_features_def
  by (auto simp del: parseCRS.simps split: sum.splits option.splits if_splits)

lemma missing_properties_rejected:
  "op_ReadFeatureCollection json_parse file = Inr fc_json \<Longrightarrow>
   find_element (get_object fc_json) ''properties'' = None \<Longrightarrow>
   ReadFeatureCollection json_parse stod toENU file = Inl MissingTopLevelProperties"
  by (simp add: ReadFeatureCollection_def)

lemma read_bare_point:
  "ReadFeatureCollection sample_json_parse sample_stod sample_toENU (Some bare_point_text)
     = Inl MissingTopLevelProperties"
proof (rule missing_properties_rejected [OF op_read_bare_point])
  show "find_element (get_object (Some wrapped_point_tree)) ''properties'' = None"
    by (simp add: wrapped_point_tree_def c_str_def)
qed

lemma read_point_collection:
  "ReadFeatureCollection sample_json_parse sample_stod sample_toENU (Some point_collection_text)
     = Inr \<lparr>datum = Datum 0 0 0, heading = Euler 0 0 0,
            features = [\<lparr>geometry = GeomPoint (Point 1 2 0), properties = Map.empty\<rparr>],
            global_properties = Map.empty\<rparr>"
proof -
  have op: "op_ReadFeatureCollection sample_json_parse (Some point_collection_text)
      = Inr (Some point_collection_tree)"
    by (simp add: op_ReadFeatureCollection_def sample_json_parse_simps point_collection_tree_def
          c_str_def)
  show ?thesis
    unfolding ReadFeatureCollection_def op
    by (simp add: point_collection_tree_def georeference_def c_str_def array_field_def
          sample_stod_def parsePoint_def feature_props_map_def parseProperties_def)
qed

lemma read_collection:
  "ReadFeatureCollection sample_json_parse sample_stod sample_toENU (Some collection_text)
     = Inr \<lparr>datum = Datum 0 0 0, heading = Euler 0 0 0,
            features =
              [\<lparr>geometry = GeomPoint (Point 1 2 0), properties = [''name'' \<mapsto> ''posts'']\<rparr>,
               \<lparr>geometry = GeomPoint (Point 3 3 0), properties = [''name'' \<mapsto> ''posts'']\<rparr>,
               \<lparr>geometry = GeomLine (Line (Point 0 0 0) (Point 1 2 0)), properties = Map.empty\<rparr>],
            global_properties = [''site'' \<mapsto> ''yard'']\<rparr>"
proof -
  have op: "op_ReadFeatureCollection sample_json_parse (Some collection_text)
      = Inr (Some collection_tree)"
    by (simp add: op_ReadFeatureCollection_def sample_json_parse_simps collection_tree_def
          c_str_def)
  show ?thesis
    unfolding ReadFeatureCollection_def op
    by (simp add: collection_tree_def c_str_def array_field_def
          sample_stod_def parsePoint_def parseLineString_def feature_props_map_def
          parseProperties_def)
qed

lemma features_of_valid_document:
  assumes "ReadFeatureCollection json_parse stod toENU file = Inr fc"
  shows "\<exists>fc_json crsVal.
     op_ReadFeatureCollection json_parse file = Inr fc_json \<and>
     parseCRS (get_string (find_element
        (get_object (find_element (get_object fc_json) ''properties'')) ''crs'')) = Inr crsVal \<and>
     (\<forall>f \<in> set (filter (\<lambda>f. \<not> feature_skipped f) (input_features fc_json)).
        \<exists>gs. feature_geometries stod toENU f (datum fc) crsVal = Inr gs) \<and>
     features fc
       = concat (map (feature_expansion stod toENU (datum fc) crsVal)
                   (filter (\<lambda>f. \<not> feature_skipped f) (input_features fc_json))) \<and>
     length (features fc)
       = (\<Sum>f\<leftarrow>filter (\<lambda>f. \<not> feature_skipped f) (input_features fc_json).
            case feature_geometries stod toENU f (datum fc) crsVal of
              Inl e \<Rightarrow> 0 | Inr gs \<Rightarrow> length gs)"
proof -
  from assms obtain fc_json props_v crs_v crsVal where r:
    "op_ReadFeatureCollection json_parse file = Inr fc_json"
    "find_element (get_object fc_json) ''properties'' = Some props_v"
    "find_element (get_object (Some props_v)) ''crs'' = Some crs_v"
    "parseCRS (get_string (Some crs_v)) = Inr crsVal"
    "features_loop stod toENU (input_features fc_json) (datum fc) crsVal [] = Inr (features fc)"
    by (rule ReadFeatureCollection_Inr)
  let ?kept = "filter (\<lambda>f. \<not> feature_skipped f) (input_features fc_json)"
  from r(5) have all: "\<forall>f \<in> set ?kept. \<exists>gs. feature_geometries stod toENU f (datum fc) crsVal = Inr gs"
    and out: "features fc = concat (map (feature_expansion stod toENU (datum fc) crsVal) ?kept)"
    unfolding features_loop_char by simp_all
  from all have len: "length (concat (map (feature_expansion stod toENU (datum fc) crsVal) ?kept))
      = (\<Sum>f\<leftarrow>?kept. case feature_geometries stod toENU f (datum fc) crsVal of
            Inl e \<Rightarrow> 0 | Inr gs \<Rightarrow> length gs)"
    by (rule length_concat_expansion)
  from r(2,3,4) have crs: "parseCRS (get_string (find_element
        (get_object (find_element (get_object fc_json) ''properties'')) ''crs'')) = Inr crsVal"
    by (simp del: parseCRS.simps)
  from r(1) crs all out len show ?thesis by (metis (no_types, lifting))
qed

lemma multi_expansion:
  assumes "find_element (Some geom) ''type'' = Some type_v"
    and "array_field (Some geom) ''coordinates'' = Some coords"
    and "parseGeometry stod toENU (Some geom) dat crs = Inr gs"
  shows "(get_string (Some type_v) = ''MultiPoint'' \<longrightarrow>
           (\<exists>ps. list_all2 (\<lambda>e p. parsePoint stod toENU (get_array (Some e)) dat crs = Inr p)
                   (filter (\<lambda>e. jtype e = json_type_array) coords) ps \<and>
                 gs = map GeomPoint ps)) \<and>
         (get_string (Some type_v) = ''MultiLineString'' \<longrightarrow>
           (\<exists>ls. list_all2 (\<lambda>e g. parseLineString stod toENU (get_array (Some e)) dat crs = Inr g)
                   (filter (\<lambda>e. jtype e = json_type_array) coords) ls \<and>
                 gs = ls)) \<and>
         (get_string (Some type_v) = ''MultiPolygon'' \<longrightarrow>
           (\<exists>pgs. list_all2 (\<lambda>e pg. parsePolygon stod toENU (get_array (Some e)) dat crs = Inr pg)
                   (filter (\<lambda>e. jtype e = json_type_array) coords) pgs \<and>
                 gs = map GeomPolygon pgs))"
proof (intro conjI impI)
  assume "get_string (Some type_v) = ''MultiPoint''"
  with assms have "multipoint_loop stod toENU coords dat crs [] = Inr gs" by simp
  then show "\<exists>ps. list_all2 (\<lambda>e p. parsePoint stod toENU (get_array (Some e)) dat crs = Inr p)
                   (filter (\<lambda>e. jtype e = json_type_array) coords) ps \<and> gs = map GeomPoint ps"
    unfolding multipoint_loop_char by simp
next
  assume "get_string (Some type_v) = ''MultiLineString''"
  with assms have "multilinestring_loop stod toENU coords dat crs [] = Inr gs" by simp
  then show "\<exists>ls. list_all2 (\<lambda>e g. parseLineString stod toENU (get_array (Some e)) dat crs = Inr g)
                   (filter (\<lambda>e. jtype e = json_type_array) coords) ls \<and> gs = ls"
    unfolding multilinestring_loop_char by simp
next
  assume "get_string (Some type_v) = ''MultiPolygon''"
  with assms have "multipolygon_loop stod toENU coords dat crs [] = Inr gs" by simp
  then show "\<exists>pgs. list_all2 (\<lambda>e pg. parsePolygon stod toENU (get_array (Some e)) dat crs = Inr pg)
                   (filter (\<lambda>e. jtype e = json_type_array) coords) pgs \<and> gs = map GeomPolygon pgs"
    unfolding multipolygon_loop_char by simp
qed

lemma collection_expansion:
  assumes "find_element (Some geom) ''type'' = Some type_v"
    and "get_string (Some type_v) = ''GeometryCollection''"
    and "array_field (Some geom) ''geometries'' = Some members"
    and "parseGeometry stod toENU (Some geom) dat crs = Inr gs"
  shows "\<exists>gss. list_all2 (\<lambda>e sub. parseGeometry stod toENU (get_object (Some e)) dat crs = Inr sub)
                 (filter (\<lambda>e. jtype e = json_type_object) members) gss \<and>
               gs = concat gss"
proof -
  from assms have "geometries_loop stod toENU members dat crs [] = Inr gs" by simp
  then show ?thesis unfolding geometries_loop_char by simp
qed

text \<open>
  Claim C1. When a document is read successfully, every entry of its \<open>features\<close> array
  that is not skipped has geometries, the features of the result are the expansions of
  these entries one after the other in the order of the array, each expansion being one
  feature per geometry with the property map of its entry, and so their number is the sum
  of the numbers of geometries of the entries that are not skipped. The geometries of a
  Multi kind are one per array entry of its coordinates, in their order, and those of a
  GeometryCollection are the geometries of its members one after the other.
\<close>

theorem features_follow_document:
  "(ReadFeatureCollection json_parse stod toENU file = Inr fc \<longrightarrow>
      (\<exists>fc_json crsVal.
         op_ReadFeatureCollection json_parse file = Inr fc_json \<and>
         parseCRS (get_string (find_element
            (get_object (find_element (get_object fc_json) ''properties'')) ''crs'')) = Inr crsVal \<and>
         (\<forall>f \<in> set (filter (\<lambda>f. \<not> feature_skipped f) (input_features fc_json)).
            \<exists>gs. feature_geometries stod toENU f (datum fc) crsVal = Inr gs) \<and>
         features fc
           = concat (map (feature_expansion stod toENU (datum fc) crsVal)
                       (filter (\<lambda>f. \<not> feature_skipped f) (input_features fc_json))) \<and>
         length (features fc)
           = (\<Sum>f\<leftarrow>filter (\<lambda>f. \<not> feature_skipped f) (input_features fc_json).
                case feature_geometries stod toENU f (datum fc) crsVal of
                  Inl e \<Rightarrow> 0 | Inr gs \<Rightarrow> length gs))) \<and>
   (find_element (Some geom) ''type'' = Some type_v \<and>
    array_field (Some geom) ''coordinates'' = Some coords \<and>
    parseGeometry stod toENU (Some geom) dat crs = Inr gs \<longrightarrow>
      (get_string (Some type_v) = ''MultiPoint'' \<longrightarrow>
         (\<exists>ps. list_all2 (\<lambda>e p. parsePoint stod toENU (get_array (Some e)) dat crs = Inr p)
                 (filter (\<lambda>e. jtype e = json_type_array) coords) ps \<and>
               gs = map GeomPoint ps)) \<and>
      (get_string (Some type_v) = ''MultiLineString'' \<longrightarrow>
         (\<exists>ls. list_all2 (\<lambda>e g. parseLineString stod toENU (get_array (Some e)) dat crs = Inr g)
                 (filter (\<lambda>e. jtype e = json_type_array) coords) ls \<and>
               gs = ls)) \<and>
      (get_string (Some type_v) = ''MultiPolygon'' \<longrightarrow>
         (\<exists>pgs. list_all2 (\<lambda>e pg. parsePolygon stod toENU (get_array (Some e)) dat crs = Inr pg)
                 (filter (\<lambda>e. jtype e = json_type_array) coords) pgs \<and>
               gs = map GeomPolygon pgs))) \<and>
   (find_element (Some geom) ''type'' = Some type_v \<and>
    get_string (Some type_v) = ''GeometryCollection'' \<and>
    array_field (Some geom) ''geometries'' = Some members \<and>
    parseGeometry stod toENU (Some geom) dat crs = Inr gs \<longrightarrow>
      (\<exists>gss. list_all2 (\<lambda>e sub. parseGeometry stod toENU (get_object (Some e)) dat crs = Inr sub)
               (filter (\<lambda>e. jtype e = json_type_object) members) gss \<and>
             gs = concat gss))"
proof (intro conjI)
  show "ReadFeatureCollection json_parse stod toENU file = Inr fc \<longrightarrow>
      (\<exists>fc_json crsVal.
         op_ReadFeatureCollection json_parse file = Inr fc_json \<and>
         parseCRS (get_string (find_element
            (get_object (find_element (get_object fc_json) ''properties'')) ''crs'')) = Inr crsVal \<and>
         (\<forall>f \<in> set (filter (\<lambda>f. \<not> feature_skipped f) (input_features fc_json)).
            \<exists>gs. feature_geometries stod toENU f (datum fc) crsVal = Inr gs) \<and>
         features fc
           = concat (map (feature_expansion stod toENU (datum fc) crsVal)
                       (filter (\<lambda>f. \<not> feature_skipped f) (input_features fc_json))) \<and>
         length (features fc)
           = (\<Sum>f\<leftarrow>filter (\<lambda>f. \<not> feature_skipped f) (input_features fc_json).
                case feature_geometries stod toENU f (datum fc) crsVal of
                  Inl e \<Rightarrow> 0 | Inr gs \<Rightarrow> length gs))"
    by (rule impI) (rule features_of_valid_document)
  show "find_element (Some geom) ''type'' = Some type_v \<and>
    array_field (Some geom) ''coordinates'' = Some coords \<and>
    parseGeometry stod toENU (Some geom) dat crs = Inr gs \<longrightarrow>
      (get_string (Some type_v) = ''MultiPoint'' \<longrightarrow>
         (\<exists>ps. list_all2 (\<lambda>e p. parsePoint stod toENU (get_array (Some e)) dat crs = Inr p)
                 (filter (\<lambda>e. jtype e = json_type_array) coords) ps \<and>
               gs = map GeomPoint ps)) \<and>
      (get_string (Some type_v) = ''MultiLineString'' \<longrightarrow>
         (\<exists>ls. list_all2 (\<lambda>e g. parseLineString stod toENU (get_array (Some e)) dat crs = Inr g)
                 (filter (\<lambda>e. jtype e = json_type_array) coords) ls \<and>
               gs = ls)) \<and>
      (get_string (Some type_v) = ''MultiPolygon'' \<longrightarrow>
         (\<exists>pgs. list_all2 (\<lambda>e pg. parsePolygon stod toENU (get_array (Some e)) dat crs = Inr pg)
                 (filter (\<lambda>e. jtype e = json_type_array) coords) pgs \<and>
               gs = map GeomPolygon pgs))"
  proof (rule impI)
    assume a: "find_element (Some geom) ''type'' = Some type_v \<and>
      array_field (Some geom) ''coordinates'' = Some coords \<and>
      parseGeometry stod toENU (Some geom) dat crs = Inr gs"
    from a have 1: "find_element (Some geom) ''type'' = Some type_v" by (rule conjunct1)
    from a have 2: "array_field (Some geom) ''coordinates'' = Some coords"
      by (rule conjunct2 [THEN conjunct1])
    from a have 3: "parseGeometry stod toENU (Some geom) dat crs = Inr gs"
      by (rule conjunct2 [THEN conjunct2])
    show "(get_string (Some type_v) = ''MultiPoint'' \<longrightarrow>
         (\<exists>ps. list_all2 (\<lambda>e p. parsePoint stod toENU (get_array (Some e)) dat crs = Inr p)
                 (filter (\<lambda>e. jtype e = json_type_array) coords) ps \<and>
               gs = map GeomPoint ps)) \<and>
      (get_string (Some type_v) = ''MultiLineString'' \<longrightarrow>
         (\<exists>ls. list_all2 (\<lambda>e g. parseLineString stod toENU (get_array (Some e)) dat crs = Inr g)
                 (filter (\<lambda>e. jtype e = json_type_array) coords) ls \<and>
               gs = ls)) \<and>
      (get_string (Some type_v) = ''MultiPolygon'' \<longrightarrow>
         (\<exists>pgs. list_all2 (\<lambda>e pg. parsePolygon stod toENU (get_array (Some e)) dat crs = Inr pg)
                 (filter (\<lambda>e. jtype e = json_type_array) coords) pgs \<and>
               gs = map GeomPolygon pgs))"
      by (rule multi_expansion [OF 1 2 3])
  qed
  show "find_element (Some geom) ''type'' = Some type_v \<and>
    get_string (Some type_v) = ''GeometryCollection'' \<and>
    array_field (Some geom) ''geometries'' = Some members \<and>
    parseGeometry stod toENU (Some geom) dat crs = Inr gs \<longrightarrow>
      (\<exists>gss. list_all2 (\<lambda>e sub. parseGeometry stod toENU (get_object (Some e)) dat crs = Inr sub)
               (filter (\<lambda>e. jtype e = json_type_object) members) gss \<and>
             gs = concat gss)"
  proof (rule impI)
    assume a: "find_element (Some geom) ''type'' = Some type_v \<and>
      get_string (Some type_v) = ''GeometryCollection'' \<and>
      array_field (Some geom) ''geometries'' = Some members \<and>
      parseGeometry stod toENU (Some geom) dat crs = Inr gs"
    show "\<exists>gss. list_all2 (\<lambda>e sub. parseGeometry stod toENU (get_object (Some e)) dat crs = Inr sub)
               (filter (\<lambda>e. jtype e = json_type_object) members) gss \<and>
             gs = concat gss"
      by (rule collection_expansion
            [OF a [THEN conjunct1] a [THEN conjunct2, THEN conjunct1]
                a [THEN conjunct2, THEN conjunct2, THEN conjunct1]
                a [THEN conjunct2, THEN conjunct2, THEN conjunct2]])
  qed
qed

lemma op_read_collection:
  "op_ReadFeatureCollection sample_json_parse (Some collection_text) = Inr (Some collection_tree)"
  by (simp add: op_ReadFeatureCollection_def sample_json_parse_simps collection_tree_def
        c_str_def)

theorem features_follow_document_witness:
  "ReadFeatureCollection sample_json_parse sample_stod sample_toENU (Some collection_text)
     = Inr collection_model \<and>
   length (input_features (Some collection_tree)) = 3 \<and>
   length (filter (\<lambda>f. \<not> feature_skipped f) (input_features (Some collection_tree))) = 2 \<and>
   features collection_model
     = concat (map (feature_expansion sample_stod sample_toENU (Datum 0 0 0) CRS_ENU)
                 (filter (\<lambda>f. \<not> feature_skipped f) (input_features (Some collection_tree)))) \<and>
   (\<Sum>f\<leftarrow>filter (\<lambda>f. \<not> feature_skipped f) (input_features (Some collection_tree)).
       case feature_geometries sample_stod sample_toENU f (Datum 0 0 0) CRS_ENU of
         Inl e \<Rightarrow> 0 | Inr gs \<Rightarrow> length gs) = 3 \<and>
   (\<exists>ps. list_all2
           (\<lambda>e p. parsePoint sample_stod sample_toENU (get_array (Some e)) (Datum 0 0 0) CRS_ENU
                   = Inr p)
           (filter (\<lambda>e. jtype e = json_type_array)
              [JArray [JNumber ''1'', JNumber ''2''], JArray [JNumber ''3'', JNumber ''3'']]) ps \<and>
         [GeomPoint (Point 1 2 0), GeomPoint (Point 3 3 0)] = map GeomPoint ps)"
proof -
  have rd: "ReadFeatureCollection sample_json_parse sample_stod sample_toENU (Some collection_text)
      = Inr collection_model"
    unfolding collection_model_def by (rule read_collection)
  note t = features_follow_document
      [where json_parse = sample_json_parse and stod = sample_stod and toENU = sample_toENU]
  from t [THEN conjunct1, rule_format, OF rd]
  obtain fc_json crsVal where r:
    "op_ReadFeatureCollection sample_json_parse (Some collection_text) = Inr fc_json"
    "parseCRS (get_string (find_element
        (get_object (find_element (get_object fc_json) ''properties'')) ''crs'')) = Inr crsVal"
    "features collection_model
       = concat (map (feature_expansion sample_stod sample_toENU (datum collection_model) crsVal)
                   (filter (\<lambda>f. \<not> feature_skipped f) (input_features fc_json)))"
    "length (features collection_model)
       = (\<Sum>f\<leftarrow>filter (\<lambda>f. \<not> feature_skipped f) (input_features fc_json).
            case feature_geometries sample_stod sample_toENU f (datum collection_model) crsVal of
              Inl e \<Rightarrow> 0 | Inr gs \<Rightarrow> length gs)"
    by blast
  from r(1) have fj: "fc_json = Some collection_tree" by (simp add: op_read_collection)
  have "parseCRS (get_string (find_element
        (get_object (find_element (get_object (Some collection_tree)) ''properties'')) ''crs''))
      = Inr CRS_ENU"
    by (simp add: collection_tree_def c_str_def)
  with r(2) have cv: "crsVal = CRS_ENU" unfolding fj by (simp del: parseCRS.simps)
  have dm: "datum collection_model = Datum 0 0 0" by (simp add: collection_model_def)
  have n3: "length (features collection_model) = 3" by (simp add: collection_model_def)
  have i3: "length (input_features (Some collection_tree)) = 3"
    by (simp add: input_features_def array_field_def collection_tree_def c_str_def)
  have k2: "length (filter (\<lambda>f. \<not> feature_skipped f) (input_features (Some collection_tree))) = 2"
    by (simp add: input_features_def array_field_def collection_tree_def c_str_def
          feature_skipped_def)
  let ?mp = "[(''type'', JString ''MultiPoint''),
              (''coordinates'',
                 JArray [JArray [JNumber ''1'', JNumber ''2''],
                         JArray [JNumber ''3'', JNumber ''3'']])]"
  have h: "find_element (Some ?mp) ''type'' = Some (JString ''MultiPoint'') \<and>
      array_field (Some ?mp) ''coordinates''
        = Some [JArray [JNumber ''1'', JNumber ''2''], JArray [JNumber ''3'', JNumber ''3'']] \<and>
      parseGeometry sample_stod sample_toENU (Some ?mp) (Datum 0 0 0) CRS_ENU
        = Inr [GeomPoint (Point 1 2 0), GeomPoint (Point 3 3 0)]"
    by (simp add: c_str_def array_field_def parsePoint_def sample_stod_def)
  have mp: "\<exists>ps. list_all2
           (\<lambda>e p. parsePoint sample_stod sample_toENU (get_array (Some e)) (Datum 0 0 0) CRS_ENU
                   = Inr p)
           (filter (\<lambda>e. jtype e = json_type_array)
              [JArray [JNumber ''1'', JNumber ''2''], JArray [JNumber ''3'', JNumber ''3'']]) ps \<and>
         [GeomPoint (Point 1 2 0), GeomPoint (Point 3 3 0)] = map GeomPoint ps"
    by (rule t [THEN conjunct2, THEN conjunct1, rule_format, OF h, THEN conjunct1, rule_format])
       simp
  from r(3) have ex: "features collection_model
     = concat (map (feature_expansion sample_stod sample_toENU (Datum 0 0 0) CRS_ENU)
                 (filter (\<lambda>f. \<not> feature_skipped f) (input_features (Some collection_tree))))"
    unfolding fj cv dm .
  from r(4) n3 have sm: "(\<Sum>f\<leftarrow>filter (\<lambda>f. \<not> feature_skipped f) (input_features (Some collection_tree)).
       case feature_geometries sample_stod sample_toENU f (Datum 0 0 0) CRS_ENU of
         Inl e \<Rightarrow> 0 | Inr gs \<Rightarrow> length gs) = 3"
    unfolding fj cv dm by simp
  from rd i3 k2 ex sm mp show ?thesis by (intro conjI)
qed


text \<open>
  A document whose top-level type is not \<open>FeatureCollection\<close> is rejected whenever the
  parser reads the wrapper back as the two-field object it is written as, or not at all:
  the wrapper has no top-level \<open>properties\<close>.
\<close>

lemma bare_document_rejected:
  assumes "json_parse content = Some (JObject obj)"
    and "find_element (Some obj) ''type'' = Some (JString t)"
    and "t \<noteq> ''FeatureCollection''"
    and "\<And>r. op_ReadFeatureCollection json_parse (Some content) = Inr r \<Longrightarrow>
           r = None \<or>
           (\<exists>fs. r = Some (JObject [(''type'', JString ''FeatureCollection''),
                                    (''features'', JArray fs)]))"
  shows "ReadFeatureCollection json_parse stod toENU (Some content)
           = Inl MissingTopLevelProperties"
proof -
  from assms(1,2,3) have "\<exists>r. op_ReadFeatureCollection json_parse (Some content) = Inr r"
    by (simp add: op_ReadFeatureCollection_def)
  then obtain r where r: "op_ReadFeatureCollection json_parse (Some content) = Inr r" ..
  from assms(4) [OF r] have "find_element (get_object r) ''properties'' = None"
    by (auto simp: c_str_def)
  with r show ?thesis by (rule missing_properties_rejected)
qed


text \<open>
  Claim C2, at a concrete input. The bare Point document with its georeferencing fields is
  rejected for missing top-level properties, while the FeatureCollection with one Feature
  around the same Point is read and gives the point.
\<close>

theorem bare_point_document_rejected:
  "ReadFeatureCollection sample_json_parse sample_stod sample_toENU (Some bare_point_text)
     = Inl MissingTopLevelProperties \<and>
   ReadFeatureCollection sample_json_parse sample_stod sample_toENU (Some point_collection_text)
     = Inr \<lparr>datum = Datum 0 0 0, heading = Euler 0 0 0,
            features = [\<lparr>geometry = GeomPoint (Point 1 2 0), properties = Map.empty\<rparr>],
            global_properties = Map.empty\<rparr>"
  using read_bare_point read_point_collection by (intro conjI)

end
